theory Spec2Isabelle
  imports Complex_Main "HOL-Library.Multiset"
begin

section \<open>JavaScript numbers\<close>

text \<open>
  The prediction and evaluation code computes with JavaScript numbers. A number is modelled
  as a real, one of the two infinities, or NaN; there is no signed zero. The operations of
  this section compute on finite values exactly, without rounding or overflow; the rounded
  operations follow in the next section. Reading an array past its end gives \<open>undefined\<close>,
  which every arithmetic operation, comparison and truthiness test used by the code treats
  like NaN, so an out-of-range read is modelled as NaN.
\<close>

datatype jsnum = Fin real | PInf | NInf | NaN

fun jneg :: "jsnum \<Rightarrow> jsnum" where
  "jneg (Fin a) = Fin (- a)"
| "jneg PInf = NInf"
| "jneg NInf = PInf"
| "jneg NaN = NaN"

fun jadd :: "jsnum \<Rightarrow> jsnum \<Rightarrow> jsnum" where
  "jadd (Fin a) (Fin b) = Fin (a + b)"
| "jadd NaN _ = NaN"
| "jadd _ NaN = NaN"
| "jadd PInf NInf = NaN"
| "jadd NInf PInf = NaN"
| "jadd PInf _ = PInf"
| "jadd _ PInf = PInf"
| "jadd NInf _ = NInf"
| "jadd _ NInf = NInf"

definition jsub :: "jsnum \<Rightarrow> jsnum \<Rightarrow> jsnum" where
  "jsub a b = jadd a (jneg b)"

fun jmul :: "jsnum \<Rightarrow> jsnum \<Rightarrow> jsnum" where
  "jmul (Fin a) (Fin b) = Fin (a * b)"
| "jmul NaN _ = NaN"
| "jmul _ NaN = NaN"
| "jmul (Fin a) PInf = (if a = 0 then NaN else if 0 < a then PInf else NInf)"
| "jmul (Fin a) NInf = (if a = 0 then NaN else if 0 < a then NInf else PInf)"
| "jmul PInf (Fin b) = (if b = 0 then NaN else if 0 < b then PInf else NInf)"
| "jmul NInf (Fin b) = (if b = 0 then NaN else if 0 < b then NInf else PInf)"
| "jmul PInf PInf = PInf"
| "jmul PInf NInf = NInf"
| "jmul NInf PInf = NInf"
| "jmul NInf NInf = PInf"

fun jdiv :: "jsnum \<Rightarrow> jsnum \<Rightarrow> jsnum" where
  "jdiv (Fin a) (Fin b) =
     (if b = 0 then (if a = 0 then NaN else if 0 < a then PInf else NInf) else Fin (a / b))"
| "jdiv NaN _ = NaN"
| "jdiv _ NaN = NaN"
| "jdiv (Fin a) PInf = Fin 0"
| "jdiv (Fin a) NInf = Fin 0"
| "jdiv PInf (Fin b) = (if 0 \<le> b then PInf else NInf)"
| "jdiv NInf (Fin b) = (if 0 \<le> b then NInf else PInf)"
| "jdiv PInf PInf = NaN"
| "jdiv PInf NInf = NaN"
| "jdiv NInf PInf = NaN"
| "jdiv NInf NInf = NaN"

text \<open>\<open>a < b\<close>; false as soon as one side is NaN.\<close>

fun jlt :: "jsnum \<Rightarrow> jsnum \<Rightarrow> bool" where
  "jlt (Fin a) (Fin b) = (a < b)"
| "jlt NaN _ = False"
| "jlt _ NaN = False"
| "jlt NInf NInf = False"
| "jlt NInf _ = True"
| "jlt _ NInf = False"
| "jlt PInf _ = False"
| "jlt _ PInf = True"

text \<open>\<open>a === b\<close> on numbers: NaN is not equal to itself.\<close>

definition jseq :: "jsnum \<Rightarrow> jsnum \<Rightarrow> bool" where
  "jseq a b = (a \<noteq> NaN \<and> a = b)"

definition jle :: "jsnum \<Rightarrow> jsnum \<Rightarrow> bool" where
  "jle a b = (jlt a b \<or> jseq a b)"

definition jgt :: "jsnum \<Rightarrow> jsnum \<Rightarrow> bool" where
  "jgt a b = jlt b a"

text \<open>\<open>Math.min\<close> and \<open>Math.max\<close> of two arguments: NaN if either is NaN.\<close>

definition jmin :: "jsnum \<Rightarrow> jsnum \<Rightarrow> jsnum" where
  "jmin a b = (if a = NaN \<or> b = NaN then NaN else if jlt b a then b else a)"

definition jmax :: "jsnum \<Rightarrow> jsnum \<Rightarrow> jsnum" where
  "jmax a b = (if a = NaN \<or> b = NaN then NaN else if jlt a b then b else a)"

text \<open>Truthiness of a number, and \<open>a || b\<close>: 0 and NaN are falsy.\<close>

definition truthy :: "jsnum \<Rightarrow> bool" where
  "truthy a = (a \<noteq> Fin 0 \<and> a \<noteq> NaN)"

definition jor :: "jsnum \<Rightarrow> jsnum \<Rightarrow> jsnum" where
  "jor a b = (if truthy a then a else b)"

fun jabs :: "jsnum \<Rightarrow> jsnum" where
  "jabs (Fin a) = Fin \<bar>a\<bar>"
| "jabs PInf = PInf"
| "jabs NInf = PInf"
| "jabs NaN = NaN"

fun jexp :: "jsnum \<Rightarrow> jsnum" where
  "jexp (Fin a) = Fin (exp a)"
| "jexp PInf = PInf"
| "jexp NInf = Fin 0"
| "jexp NaN = NaN"

fun jsqrt :: "jsnum \<Rightarrow> jsnum" where
  "jsqrt (Fin a) = (if 0 \<le> a then Fin (sqrt a) else NaN)"
| "jsqrt PInf = PInf"
| "jsqrt NInf = NaN"
| "jsqrt NaN = NaN"

fun jlog1p :: "jsnum \<Rightarrow> jsnum" where
  "jlog1p (Fin a) = (if - 1 < a then Fin (ln (1 + a)) else if a = - 1 then NInf else NaN)"
| "jlog1p PInf = PInf"
| "jlog1p NInf = NaN"
| "jlog1p NaN = NaN"

text \<open>\<open>xs[i]\<close> on an array of numbers.\<close>

definition nth_js :: "jsnum list \<Rightarrow> nat \<Rightarrow> jsnum" where
  "nth_js xs i = (if i < length xs then xs ! i else NaN)"

text \<open>
  \<open>Array.prototype.sort(cmp)\<close>: a stable sort; \<open>cmp a b > 0\<close> puts \<open>a\<close> after \<open>b\<close>.
  For a comparator that is a consistent ordering the result of a stable sort is unique, and
  this insertion sort computes it. (For a comparator that returns NaN the language leaves
  the order to the implementation; the function below is then one permitted behaviour.)
\<close>

fun js_insert :: "('a \<Rightarrow> 'a \<Rightarrow> jsnum) \<Rightarrow> 'a \<Rightarrow> 'a list \<Rightarrow> 'a list" where
  "js_insert cmp x [] = [x]"
| "js_insert cmp x (y # ys) =
     (if jgt (cmp x y) (Fin 0) then y # js_insert cmp x ys else x # y # ys)"

definition js_sort :: "('a \<Rightarrow> 'a \<Rightarrow> jsnum) \<Rightarrow> 'a list \<Rightarrow> 'a list" where
  "js_sort cmp xs = foldr (js_insert cmp) xs []"

section \<open>Double-precision arithmetic\<close>

text \<open>
  A JavaScript number is an IEEE 754 binary64 value, and an arithmetic operation returns the
  double nearest to the exact result, the one with the even significand when two doubles
  are equally near, and an infinity when that double would have a magnitude of \<open>2 ^ 1024\<close>
  or more. \<open>fl x\<close> is that double for the real \<open>x\<close>: the doubles around \<open>x\<close> are the
  multiples of \<open>2 ^ e\<close>, where \<open>e = ulpExponent x\<close> is 52 below the exponent of \<open>x\<close>, and
  -1074 for the subnormal numbers, and \<open>x\<close> is rounded to one of them.
\<close>

definition ulpExponent :: "real \<Rightarrow> int" where
  "ulpExponent x = max (\<lfloor>log 2 \<bar>x\<bar>\<rfloor> - 52) (- 1074)"

definition roundEven :: "real \<Rightarrow> int" where
  "roundEven q =
     (let f = \<lfloor>q\<rfloor>
      in if q - of_int f < 1 / 2 then f
         else if 1 / 2 < q - of_int f then f + 1
         else if even f then f else f + 1)"

definition fl :: "real \<Rightarrow> jsnum" where
  "fl x =
     (if x = 0 then Fin 0
      else
        (let e = ulpExponent x;
             y = of_int (roundEven (x / 2 powi e)) * 2 powi e
         in if 2 ^ 1024 \<le> \<bar>y\<bar> then (if 0 < y then PInf else NInf) else Fin y))"

text \<open>
  The operations \<open>+\<close>, \<open>-\<close>, \<open>*\<close>, \<open>/\<close> and \<open>Math.sqrt\<close> on doubles: rounded on finite
  operands, and as in the previous section when an operand is infinite or NaN or the divisor
  is 0. \<open>Math.sqrt\<close> is the square root of IEEE 754, which is correctly rounded.
  \<open>calculateCorrelation\<close>, whose guard \<open>denominator === 0\<close> compares a rounded result with
  0, is modelled on these operations.
\<close>

definition dadd :: "jsnum \<Rightarrow> jsnum \<Rightarrow> jsnum" where
  "dadd a b = (case (a, b) of (Fin x, Fin y) \<Rightarrow> fl (x + y) | _ \<Rightarrow> jadd a b)"

definition dsub :: "jsnum \<Rightarrow> jsnum \<Rightarrow> jsnum" where
  "dsub a b = (case (a, b) of (Fin x, Fin y) \<Rightarrow> fl (x - y) | _ \<Rightarrow> jsub a b)"

definition dmul :: "jsnum \<Rightarrow> jsnum \<Rightarrow> jsnum" where
  "dmul a b = (case (a, b) of (Fin x, Fin y) \<Rightarrow> fl (x * y) | _ \<Rightarrow> jmul a b)"

definition ddiv :: "jsnum \<Rightarrow> jsnum \<Rightarrow> jsnum" where
  "ddiv a b =
     (case (a, b) of (Fin x, Fin y) \<Rightarrow> (if y = 0 then jdiv a b else fl (x / y)) | _ \<Rightarrow> jdiv a b)"

definition dsqrt :: "jsnum \<Rightarrow> jsnum" where
  "dsqrt a = (case a of Fin x \<Rightarrow> (if 0 \<le> x then fl (sqrt x) else NaN) | _ \<Rightarrow> jsqrt a)"

section \<open>Data model (types/habit.ts)\<close>

datatype TimeOfDay = morning | afternoon | evening | anytime
datatype Mood = great | good | okay | poor
datatype Weather = sunny | cloudy | rainy | snowy
datatype Confidence = high | medium | low

text \<open>
  A \<open>Date\<close> is its time value, the milliseconds since the epoch. The \<open>date\<close> of a log is a
  calendar day in the format YYYY-MM-DD; it is modelled as the number of that day counted
  from 1970-01-01, and \<open>new Date(log.date).getTime()\<close> is the UTC midnight of that day.
\<close>

definition msPerDay :: int where
  "msPerDay = 1000 * 60 * 60 * 24"

definition dateTime :: "int \<Rightarrow> int" where
  "dateTime day = day * msPerDay"

record Habit =
  h_id :: string
  h_name :: string
  h_category :: string
  h_preferredTime :: TimeOfDay
  h_createdAt :: int
  h_isActive :: bool

record HabitLog =
  l_id :: string
  l_habitId :: string
  l_date :: int
  l_completed :: bool
  l_mood :: "Mood option"
  l_sleepHours :: "jsnum option"
  l_energyLevel :: "jsnum option"
  l_stressLevel :: "jsnum option"
  l_weather :: "Weather option"
  l_loggedAt :: int

record HabitStats =
  s_habitId :: string
  s_totalLogs :: nat
  s_completedLogs :: nat
  s_successRate :: real
  s_currentStreak :: nat
  s_longestStreak :: nat
  s_daysSinceLastLog :: int

section \<open>Habit statistics (habit-utils.ts)\<close>

text \<open>The loop that counts the current streak: stop at the first log that is not completed.\<close>

fun currentStreakLoop :: "HabitLog list \<Rightarrow> nat \<Rightarrow> nat" where
  "currentStreakLoop [] currentStreak = currentStreak"
| "currentStreakLoop (lg # rest) currentStreak =
     (if l_completed lg then currentStreakLoop rest (currentStreak + 1) else currentStreak)"

text \<open>The loop for the longest streak, over the state (longestStreak, tempStreak).\<close>

fun longestStreakLoop :: "HabitLog list \<Rightarrow> nat \<times> nat \<Rightarrow> nat \<times> nat" where
  "longestStreakLoop [] st = st"
| "longestStreakLoop (lg # rest) (longestStreak, tempStreak) =
     (if l_completed lg
      then longestStreakLoop rest (max longestStreak (tempStreak + 1), tempStreak + 1)
      else longestStreakLoop rest (longestStreak, 0))"

text \<open>
  \<open>calculateHabitStats\<close>, with the reading of the clock \<open>Date.now()\<close> as the argument
  \<open>now\<close>. \<open>habitLogs.sort\<close> sorts in place and returns the same array, and
  \<open>sortedLogs.reverse()\<close> reverses that array in place: after the second loop
  \<open>sortedLogs\<close> is the reversed array, and \<open>sortedLogs[0]\<close> is read from it.
\<close>

definition calculateHabitStats :: "int \<Rightarrow> Habit \<Rightarrow> HabitLog list \<Rightarrow> HabitStats" where
  "calculateHabitStats now habit logs =
    (let habitLogs = filter (\<lambda>lg. l_habitId lg = h_id habit) logs;
         completedLogs = filter l_completed habitLogs;
         totalLogs = length habitLogs;
         completedCount = length completedLogs;
         successRate = (if 0 < totalLogs then real completedCount / real totalLogs else 0);
         sortedLogs = js_sort (\<lambda>a b. Fin (real_of_int (dateTime (l_date b) - dateTime (l_date a)))) habitLogs;
         currentStreak = currentStreakLoop sortedLogs 0;
         sortedLogs' = rev sortedLogs;
         longestStreak = fst (longestStreakLoop sortedLogs' (0, 0));
         daysSinceLastLog =
           (case sortedLogs' of
              [] \<Rightarrow> 999
            | lastLog # _ \<Rightarrow> (now - dateTime (l_date lastLog)) div msPerDay)
     in \<lparr> s_habitId = h_id habit, s_totalLogs = totalLogs, s_completedLogs = completedCount,
          s_successRate = successRate, s_currentStreak = currentStreak,
          s_longestStreak = longestStreak, s_daysSinceLastLog = daysSinceLastLog \<rparr>)"

section \<open>Feature engineering (ml-features.ts)\<close>

record MLFeatures =
  f_habitId :: string
  f_dayOfWeek :: nat
  f_timeOfDay :: TimeOfDay
  f_mood :: "Mood option"
  f_sleepHours :: "jsnum option"
  f_energyLevel :: "jsnum option"
  f_stressLevel :: "jsnum option"
  f_weather :: "Weather option"
  f_streak :: nat
  f_daysSinceLastLog :: int
  f_successRate :: real
  f_category :: string
  f_daysSinceCreated :: int
  f_isWeekend :: bool

text \<open>
  What the code reads from its surroundings: the clock (\<open>Date.now()\<close>, \<open>new Date()\<close>) and
  the offset of local time from UTC at an instant, which \<open>getDay()\<close> uses.
\<close>

record Runtime =
  r_now :: int
  r_tzOffset :: "int \<Rightarrow> int"

text \<open>\<open>d.getDay()\<close>: 0 is Sunday; the epoch was a Thursday.\<close>

definition getDay :: "Runtime \<Rightarrow> int \<Rightarrow> nat" where
  "getDay rt t = nat (((t + r_tzOffset rt t) div msPerDay + 4) mod 7)"

text \<open>
  The most recent log of \<open>extractFeatures\<close>: the first of the logs of the habit dated on or
  before the target date, sorted by date in descending order, or \<open>undefined\<close> (None).
\<close>

definition recentLogOf :: "HabitLog list \<Rightarrow> int \<Rightarrow> HabitLog option" where
  "recentLogOf habitLogs targetDateObj =
     (case js_sort (\<lambda>a b. Fin (real_of_int (dateTime (l_date b) - dateTime (l_date a))))
             (filter (\<lambda>lg. dateTime (l_date lg) \<le> targetDateObj) habitLogs) of
        [] \<Rightarrow> None
      | lg # _ \<Rightarrow> Some lg)"

definition extractFeatures :: "Runtime \<Rightarrow> Habit \<Rightarrow> HabitLog list \<Rightarrow> int option \<Rightarrow> MLFeatures" where
  "extractFeatures rt habit logs targetDate =
    (let targetDateObj = (case targetDate of Some d \<Rightarrow> d | None \<Rightarrow> r_now rt);
         stats = calculateHabitStats (r_now rt) habit logs;
         habitLogs = filter (\<lambda>lg. l_habitId lg = h_id habit) logs;
         recentLog = recentLogOf habitLogs targetDateObj;
         daysSinceCreated = (targetDateObj - h_createdAt habit) div msPerDay;
         isWeekend = (getDay rt targetDateObj = 0 \<or> getDay rt targetDateObj = 6)
     in \<lparr> f_habitId = h_id habit,
          f_dayOfWeek = getDay rt targetDateObj,
          f_timeOfDay = h_preferredTime habit,
          f_mood = Option.bind recentLog l_mood,
          f_sleepHours = Option.bind recentLog l_sleepHours,
          f_energyLevel = Option.bind recentLog l_energyLevel,
          f_stressLevel = Option.bind recentLog l_stressLevel,
          f_weather = Option.bind recentLog l_weather,
          f_streak = s_currentStreak stats,
          f_daysSinceLastLog = s_daysSinceLastLog stats,
          f_successRate = s_successRate stats,
          f_category = h_category habit,
          f_daysSinceCreated = daysSinceCreated,
          f_isWeekend = isWeekend \<rparr>)"

text \<open>
  The category hash: \<open>((hash << 5) - hash + code) & 0xffff\<close> over the characters. The
  running hash stays below \<open>2^16\<close>, so the shift does not overflow 32 bits and the mask is
  the remainder modulo \<open>2^16\<close>.
\<close>

definition categoryHash :: "string \<Rightarrow> nat" where
  "categoryHash category = foldl (\<lambda>hash c. (hash * 32 - hash + of_char c) mod 65536) 0 category"

definition timeEncoding :: "TimeOfDay \<Rightarrow> jsnum list" where
  "timeEncoding t =
     (case t of
        morning \<Rightarrow> [Fin 1, Fin 0, Fin 0, Fin 0]
      | afternoon \<Rightarrow> [Fin 0, Fin 1, Fin 0, Fin 0]
      | evening \<Rightarrow> [Fin 0, Fin 0, Fin 1, Fin 0]
      | anytime \<Rightarrow> [Fin 0, Fin 0, Fin 0, Fin 1])"

definition weatherEncoding :: "Weather option \<Rightarrow> jsnum list" where
  "weatherEncoding w =
     (case w of
        Some sunny \<Rightarrow> [Fin 1, Fin 0, Fin 0, Fin 0]
      | Some cloudy \<Rightarrow> [Fin 0, Fin 1, Fin 0, Fin 0]
      | Some rainy \<Rightarrow> [Fin 0, Fin 0, Fin 1, Fin 0]
      | Some snowy \<Rightarrow> [Fin 0, Fin 0, Fin 0, Fin 1]
      | None \<Rightarrow> [Fin 0, Fin 0, Fin 0, Fin 0])"

definition moodValue :: "Mood option \<Rightarrow> jsnum" where
  "moodValue m =
     (case m of
        Some poor \<Rightarrow> Fin 0
      | Some okay \<Rightarrow> Fin 0.33
      | Some good \<Rightarrow> Fin 0.67
      | Some great \<Rightarrow> Fin 1
      | None \<Rightarrow> Fin 0.5)"

definition sleepValue :: "jsnum option \<Rightarrow> jsnum" where
  "sleepValue s =
     (case s of
        Some h \<Rightarrow> (if truthy h then jmin (jdiv h (Fin 10)) (Fin 1) else Fin 0.75)
      | None \<Rightarrow> Fin 0.75)"

definition energyValue :: "jsnum option \<Rightarrow> jsnum" where
  "energyValue e =
     (case e of
        Some v \<Rightarrow> (if truthy v then jdiv (jsub v (Fin 1)) (Fin 4) else Fin 0.5)
      | None \<Rightarrow> Fin 0.5)"

definition stressValue :: "jsnum option \<Rightarrow> jsnum" where
  "stressValue e =
     (case e of
        Some v \<Rightarrow> (if truthy v then jsub (Fin 1) (jdiv (jsub v (Fin 1)) (Fin 4)) else Fin 0.5)
      | None \<Rightarrow> Fin 0.5)"

definition encodeFeatures :: "MLFeatures \<Rightarrow> jsnum list" where
  "encodeFeatures features =
     [jdiv (Fin (real (f_dayOfWeek features))) (Fin 6)]
     @ timeEncoding (f_timeOfDay features)
     @ [moodValue (f_mood features),
        sleepValue (f_sleepHours features),
        energyValue (f_energyLevel features),
        stressValue (f_stressLevel features)]
     @ weatherEncoding (f_weather features)
     @ [jmin (jdiv (jlog1p (Fin (real (f_streak features)))) (jlog1p (Fin 30))) (Fin 1),
        jmin (jdiv (Fin (real_of_int (f_daysSinceLastLog features))) (Fin 30)) (Fin 1),
        Fin (f_successRate features),
        jdiv (Fin (real (categoryHash (f_category features) mod 100))) (Fin 100),
        jmin (jdiv (jlog1p (Fin (real_of_int (f_daysSinceCreated features)))) (jlog1p (Fin 365))) (Fin 1),
        (if f_isWeekend features then Fin 1 else Fin 0)]"

record TrainingData =
  td_features :: "jsnum list list"
  td_labels :: "jsnum list"
  td_metadata :: "(string \<times> int) list"

text \<open>One sample per habit and per log of that habit, in the order of the two loops.\<close>

definition trainingSamples :: "Runtime \<Rightarrow> Habit list \<Rightarrow> HabitLog list \<Rightarrow> (jsnum list \<times> jsnum \<times> string \<times> int) list" where
  "trainingSamples rt habits logs =
     concat (map (\<lambda>habit.
       map (\<lambda>lg.
              (encodeFeatures (extractFeatures rt habit logs (Some (dateTime (l_date lg)))),
               (if l_completed lg then Fin 1 else Fin 0),
               h_id habit, l_date lg))
           (filter (\<lambda>lg. l_habitId lg = h_id habit) logs)) habits)"

definition createTrainingData :: "Runtime \<Rightarrow> Habit list \<Rightarrow> HabitLog list \<Rightarrow> TrainingData" where
  "createTrainingData rt habits logs =
     (let samples = trainingSamples rt habits logs
      in \<lparr> td_features = map fst samples,
           td_labels = map (\<lambda>s. fst (snd s)) samples,
           td_metadata = map (\<lambda>s. snd (snd s)) samples \<rparr>)"

section \<open>Models (ml-models.ts)\<close>

subsection \<open>Logistic regression\<close>

record LogisticRegression =
  lr_weights :: "jsnum list"
  lr_bias :: jsnum
  lr_learningRate :: jsnum
  lr_iterations :: nat

text \<open>The constructor: no weights, bias 0.\<close>

definition newLogisticRegression :: "jsnum \<Rightarrow> nat \<Rightarrow> LogisticRegression" where
  "newLogisticRegression learningRate iterations =
     \<lparr> lr_weights = [], lr_bias = Fin 0, lr_learningRate = learningRate, lr_iterations = iterations \<rparr>"

definition sigmoid :: "jsnum \<Rightarrow> jsnum" where
  "sigmoid z = jdiv (Fin 1) (jadd (Fin 1) (jexp (jneg (jmax (Fin (- 500)) (jmin (Fin 500) z)))))"

text \<open>
  \<open>features.reduce((sum, feature, i) => sum + feature * this.weights[i], this.bias)\<close>,
  with the index \<open>i\<close> of the element being visited and the running sum \<open>acc\<close>.
\<close>

fun weightedSum :: "jsnum list \<Rightarrow> jsnum list \<Rightarrow> nat \<Rightarrow> jsnum \<Rightarrow> jsnum" where
  "weightedSum [] weights i acc = acc"
| "weightedSum (feature # rest) weights i acc =
     weightedSum rest weights (i + 1) (jadd acc (jmul feature (nth_js weights i)))"

definition lr_predict :: "LogisticRegression \<Rightarrow> jsnum list \<Rightarrow> jsnum" where
  "lr_predict m features = sigmoid (weightedSum features (lr_weights m) 0 (lr_bias m))"



subsection \<open>Decision tree\<close>

text \<open>
  A node as \<open>buildTree\<close> makes it: a leaf with its prediction, or an inner node with the
  index of a feature, a threshold and two children.
\<close>

datatype TreeNode = Leaf jsnum | Split nat jsnum TreeNode TreeNode

record DecisionTree =
  dt_root :: "TreeNode option"
  dt_maxDepth :: nat
  dt_minSamples :: nat

definition newDecisionTree :: "nat \<Rightarrow> nat \<Rightarrow> DecisionTree" where
  "newDecisionTree maxDepth minSamples =
     \<lparr> dt_root = None, dt_maxDepth = maxDepth, dt_minSamples = minSamples \<rparr>"

text \<open>
  The table of label counts that \<open>calculateGini\<close> builds with \<open>reduce\<close>, as an
  association list: \<open>acc[label] = (acc[label] || 0) + 1\<close>. The impurity subtracts the
  squared proportion of every entry; with exact arithmetic the order of the entries has no
  influence on the result.
\<close>

fun countLabel :: "jsnum \<Rightarrow> (jsnum \<times> nat) list \<Rightarrow> (jsnum \<times> nat) list" where
  "countLabel label [] = [(label, 1)]"
| "countLabel label ((k, c) # acc) =
     (if k = label then (k, c + 1) # acc else (k, c) # countLabel label acc)"

definition calculateGini :: "jsnum list \<Rightarrow> jsnum" where
  "calculateGini labels =
     (if length labels = 0 then Fin 0
      else
        (let counts = foldl (\<lambda>acc label. countLabel label acc) [] labels;
             total = Fin (real (length labels))
         in foldl (\<lambda>gini count.
                     (let probability = jdiv (Fin (real count)) total
                      in jsub gini (jmul probability probability)))
                  (Fin 1) (map snd counts)))"

text \<open>The indices of the samples on the left (\<open><=\<close> threshold) and on the right of a split.\<close>

definition leftIndices :: "jsnum list list \<Rightarrow> nat \<Rightarrow> jsnum \<Rightarrow> nat list" where
  "leftIndices features featureIndex threshold =
     filter (\<lambda>i. jle (nth_js (features ! i) featureIndex) threshold) [0..<length features]"

definition rightIndices :: "jsnum list list \<Rightarrow> nat \<Rightarrow> jsnum \<Rightarrow> nat list" where
  "rightIndices features featureIndex threshold =
     filter (\<lambda>i. \<not> jle (nth_js (features ! i) featureIndex) threshold) [0..<length features]"

text \<open>
  The body of the inner loop of \<open>findBestSplit\<close> for one candidate threshold, on the state
  (bestGini, bestFeatureIndex, bestThreshold).
\<close>

definition considerSplit ::
  "jsnum list list \<Rightarrow> jsnum list \<Rightarrow> nat \<Rightarrow> jsnum list \<Rightarrow> jsnum \<times> int \<times> jsnum \<Rightarrow> nat \<Rightarrow> jsnum \<times> int \<times> jsnum" where
  "considerSplit features labels featureIndex values best i =
     (let threshold = jdiv (jadd (values ! i) (values ! (i + 1))) (Fin 2);
          ls = leftIndices features featureIndex threshold;
          rs = rightIndices features featureIndex threshold
      in if length ls = 0 \<or> length rs = 0 then best
         else
           (let leftLabels = map (nth_js labels) ls;
                rightLabels = map (nth_js labels) rs;
                leftGini = calculateGini leftLabels;
                rightGini = calculateGini rightLabels;
                weightedGini =
                  jdiv (jadd (jmul (Fin (real (length leftLabels))) leftGini)
                             (jmul (Fin (real (length rightLabels))) rightGini))
                       (Fin (real (length labels)))
            in if jlt weightedGini (fst best) then (weightedGini, int featureIndex, threshold)
               else best))"

definition findBestSplit :: "jsnum list list \<Rightarrow> jsnum list \<Rightarrow> (nat \<times> jsnum \<times> jsnum) option" where
  "findBestSplit features labels =
     (let numFeatures = (case features of [] \<Rightarrow> 0 | first # _ \<Rightarrow> length first);
          best =
            foldl (\<lambda>best featureIndex.
                     (let values = js_sort jsub (map (\<lambda>f. nth_js f featureIndex) features)
                      in foldl (considerSplit features labels featureIndex values) best
                               [0..<length values - 1]))
                  (PInf, - 1, Fin 0) [0..<numFeatures]
      in if 0 \<le> fst (snd best)
         then Some (nat (fst (snd best)), snd (snd best), fst best)
         else None)"

text \<open>The prediction of a leaf: \<open>labels.reduce((sum, label) => sum + label, 0) / labels.length\<close>.\<close>

definition meanLabel :: "jsnum list \<Rightarrow> jsnum" where
  "meanLabel labels = jdiv (foldl jadd (Fin 0) labels) (Fin (real (length labels)))"

function buildTree :: "nat \<Rightarrow> nat \<Rightarrow> jsnum list list \<Rightarrow> jsnum list \<Rightarrow> nat \<Rightarrow> TreeNode" where
  "buildTree maxDepth minSamples features labels depth =
     (if maxDepth \<le> depth \<or> length labels < minSamples \<or> length (remdups labels) = 1
      then Leaf (meanLabel labels)
      else
        (case findBestSplit features labels of
           None \<Rightarrow> Leaf (meanLabel labels)
         | Some bestSplit \<Rightarrow>
             (let ls = leftIndices features (fst bestSplit) (fst (snd bestSplit));
                  rs = rightIndices features (fst bestSplit) (fst (snd bestSplit))
              in Split (fst bestSplit) (fst (snd bestSplit))
                   (buildTree maxDepth minSamples (map (\<lambda>i. features ! i) ls)
                      (map (nth_js labels) ls) (depth + 1))
                   (buildTree maxDepth minSamples (map (\<lambda>i. features ! i) rs)
                      (map (nth_js labels) rs) (depth + 1)))))"
  by pat_completeness auto
termination
  by (relation "measure (\<lambda>(maxDepth, minSamples, features, labels, depth). maxDepth - depth)") auto

definition dt_train :: "DecisionTree \<Rightarrow> jsnum list list \<Rightarrow> jsnum list \<Rightarrow> DecisionTree" where
  "dt_train t features labels =
     (if length features = 0 then t
      else t \<lparr> dt_root := Some (buildTree (dt_maxDepth t) (dt_minSamples t) features labels 0) \<rparr>)"

text \<open>
  The walk of \<open>predict\<close> from a node down to a leaf; the result is the prediction stored in
  the leaf that is reached.
\<close>

fun reachedLeaf :: "TreeNode \<Rightarrow> jsnum list \<Rightarrow> jsnum" where
  "reachedLeaf (Leaf prediction) features = prediction"
| "reachedLeaf (Split featureIndex threshold left right) features =
     (if jle (nth_js features featureIndex) threshold
      then reachedLeaf left features
      else reachedLeaf right features)"

definition dt_predict :: "DecisionTree \<Rightarrow> jsnum list \<Rightarrow> jsnum" where
  "dt_predict t features =
     (case dt_root t of
        None \<Rightarrow> Fin 0.5
      | Some node \<Rightarrow> jor (reachedLeaf node features) (Fin 0.5))"

section \<open>Correlation (ml-features.ts)\<close>

text \<open>
  The loop of \<open>calculateCorrelation\<close> on the state (numerator, denomX, denomY), and the
  function, in double-precision arithmetic. The length of an array is below \<open>2 ^ 32\<close>, so
  \<open>n\<close> is the double \<open>real n\<close>.
\<close>

definition correlationStep ::
  "jsnum list \<Rightarrow> jsnum list \<Rightarrow> jsnum \<Rightarrow> jsnum \<Rightarrow> jsnum \<times> jsnum \<times> jsnum \<Rightarrow> nat \<Rightarrow> jsnum \<times> jsnum \<times> jsnum" where
  "correlationStep x y meanX meanY st i =
     (let dx = dsub (nth_js x i) meanX;
          dy = dsub (nth_js y i) meanY
      in (dadd (fst st) (dmul dx dy),
          dadd (fst (snd st)) (dmul dx dx),
          dadd (snd (snd st)) (dmul dy dy)))"

definition calculateCorrelation :: "jsnum list \<Rightarrow> jsnum list \<Rightarrow> jsnum" where
  "calculateCorrelation x y =
     (let n = length x
      in if n = 0 then Fin 0
         else
           (let meanX = ddiv (foldl dadd (Fin 0) x) (Fin (real n));
                meanY = ddiv (foldl dadd (Fin 0) y) (Fin (real n));
                st = foldl (correlationStep x y meanX meanY) (Fin 0, Fin 0, Fin 0) [0..<n];
                denominator = dsqrt (dmul (fst (snd st)) (snd (snd st)))
            in if jseq denominator (Fin 0) then Fin 0 else ddiv (fst st) denominator))"

section \<open>Model evaluation (model-evaluation.ts)\<close>

record ConfusionMatrix =
  cm_truePositive :: nat
  cm_trueNegative :: nat
  cm_falsePositive :: nat
  cm_falseNegative :: nat

record ClassReport =
  cr_precision :: jsnum
  cr_recall :: jsnum
  cr_f1Score :: jsnum
  cr_support :: nat

record AverageReport =
  av_precision :: jsnum
  av_recall :: jsnum
  av_f1Score :: jsnum

record ClassificationReport =
  rep_positive :: ClassReport
  rep_negative :: ClassReport
  rep_macro :: AverageReport
  rep_weighted :: AverageReport

record ModelMetrics =
  m_accuracy :: jsnum
  m_precision :: jsnum
  m_recall :: jsnum
  m_f1Score :: jsnum
  m_confusionMatrix :: ConfusionMatrix
  m_rocAuc :: "jsnum option"
  m_classificationReport :: ClassificationReport

text \<open>
  \<open>predictions.reduce((sum, pred, i) => sum + (P(pred, actuals[i]) ? 1 : 0), 0)\<close> with the
  index \<open>i\<close> and the running count.
\<close>

fun countCases :: "(jsnum \<Rightarrow> jsnum \<Rightarrow> bool) \<Rightarrow> jsnum list \<Rightarrow> jsnum list \<Rightarrow> nat \<Rightarrow> nat \<Rightarrow> nat" where
  "countCases P [] actuals i acc = acc"
| "countCases P (pred # rest) actuals i acc =
     countCases P rest actuals (i + 1) (acc + (if P pred (nth_js actuals i) then 1 else 0))"

text \<open>
  The samples of \<open>calculateROCAUC\<close>: the actual value with the probability at the same
  index, which is \<open>undefined\<close> (None) past the end of the probabilities.
\<close>

definition probNum :: "jsnum option \<Rightarrow> jsnum" where
  "probNum p = (case p of Some v \<Rightarrow> v | None \<Rightarrow> NaN)"

text \<open>\<open>a !== b\<close> on two values that are numbers or \<open>undefined\<close>.\<close>

definition differs :: "jsnum option \<Rightarrow> jsnum option \<Rightarrow> bool" where
  "differs a b =
     (case (a, b) of
        (None, None) \<Rightarrow> False
      | (Some u, Some v) \<Rightarrow> \<not> jseq u v
      | _ \<Rightarrow> True)"

text \<open>The loop of \<open>calculateROCAUC\<close> on the state (tp, fp, tpr, fpr, auc).\<close>

fun rocLoop ::
  "(jsnum \<times> jsnum option) list \<Rightarrow> nat \<Rightarrow> nat \<Rightarrow> nat \<times> nat \<times> jsnum \<times> jsnum \<times> jsnum \<Rightarrow> jsnum" where
  "rocLoop [] positives negatives (tp, fp, tpr, fpr, auc) = auc"
| "rocLoop (s # rest) positives negatives (tp, fp, tpr, fpr, auc) =
     (let tp' = (if jseq (fst s) (Fin 1) then tp + 1 else tp);
          fp' = (if jseq (fst s) (Fin 1) then fp else fp + 1);
          newThreshold = (case rest of [] \<Rightarrow> True | s' # _ \<Rightarrow> differs (snd s) (snd s'))
      in if newThreshold
         then
           (let newTPR = jdiv (Fin (real tp')) (Fin (real positives));
                newFPR = jdiv (Fin (real fp')) (Fin (real negatives))
            in rocLoop rest positives negatives
                 (tp', fp', newTPR, newFPR,
                  jadd auc (jdiv (jmul (jsub newFPR fpr) (jadd tpr newTPR)) (Fin 2))))
         else rocLoop rest positives negatives (tp', fp', tpr, fpr, auc))"

definition calculateROCAUC :: "jsnum list \<Rightarrow> jsnum list \<Rightarrow> jsnum" where
  "calculateROCAUC actuals probabilities =
     (let sorted =
            js_sort (\<lambda>a b. jsub (probNum (snd b)) (probNum (snd a)))
              (map (\<lambda>i. (actuals ! i,
                          if i < length probabilities then Some (probabilities ! i) else None))
                   [0..<length actuals]);
          positives = length (filter (\<lambda>a. jseq a (Fin 1)) actuals);
          negatives = length actuals - positives
      in if positives = 0 \<or> negatives = 0 then Fin 0.5
         else rocLoop sorted positives negatives (0, 0, Fin 0, Fin 0, Fin 0))"

text \<open>The four counts of the confusion matrix.\<close>

definition truePositives :: "jsnum list \<Rightarrow> jsnum list \<Rightarrow> nat" where
  "truePositives predictions actuals =
     countCases (\<lambda>pred a. jseq pred (Fin 1) \<and> jseq a (Fin 1)) predictions actuals 0 0"

definition trueNegatives :: "jsnum list \<Rightarrow> jsnum list \<Rightarrow> nat" where
  "trueNegatives predictions actuals =
     countCases (\<lambda>pred a. jseq pred (Fin 0) \<and> jseq a (Fin 0)) predictions actuals 0 0"

definition falsePositives :: "jsnum list \<Rightarrow> jsnum list \<Rightarrow> nat" where
  "falsePositives predictions actuals =
     countCases (\<lambda>pred a. jseq pred (Fin 1) \<and> jseq a (Fin 0)) predictions actuals 0 0"

definition falseNegatives :: "jsnum list \<Rightarrow> jsnum list \<Rightarrow> nat" where
  "falseNegatives predictions actuals =
     countCases (\<lambda>pred a. jseq pred (Fin 0) \<and> jseq a (Fin 1)) predictions actuals 0 0"

definition calculateMetrics :: "jsnum list \<Rightarrow> jsnum list \<Rightarrow> jsnum list \<Rightarrow> ModelMetrics" where
  "calculateMetrics predictions actuals probabilities =
     (let tp = truePositives predictions actuals;
          tn = trueNegatives predictions actuals;
          fp = falsePositives predictions actuals;
          fn = falseNegatives predictions actuals;
          accuracy = jdiv (Fin (real (tp + tn))) (Fin (real (tp + tn + fp + fn)));
          precision = jor (jdiv (Fin (real tp)) (Fin (real (tp + fp)))) (Fin 0);
          recall = jor (jdiv (Fin (real tp)) (Fin (real (tp + fn)))) (Fin 0);
          f1Score = jor (jdiv (jmul (Fin 2) (jmul precision recall)) (jadd precision recall)) (Fin 0);
          negativePrecision = jor (jdiv (Fin (real tn)) (Fin (real (tn + fn)))) (Fin 0);
          negativeRecall = jor (jdiv (Fin (real tn)) (Fin (real (tn + fp)))) (Fin 0);
          negativeF1 =
            jor (jdiv (jmul (Fin 2) (jmul negativePrecision negativeRecall))
                      (jadd negativePrecision negativeRecall)) (Fin 0);
          positiveSupport = length (filter (\<lambda>a. jseq a (Fin 1)) actuals);
          negativeSupport = length (filter (\<lambda>a. jseq a (Fin 0)) actuals);
          macroPrecision = jdiv (jadd precision negativePrecision) (Fin 2);
          macroRecall = jdiv (jadd recall negativeRecall) (Fin 2);
          macroF1 = jdiv (jadd f1Score negativeF1) (Fin 2);
          total = Fin (real (positiveSupport + negativeSupport));
          weightedPrecision =
            jdiv (jadd (jmul precision (Fin (real positiveSupport)))
                       (jmul negativePrecision (Fin (real negativeSupport)))) total;
          weightedRecall =
            jdiv (jadd (jmul recall (Fin (real positiveSupport)))
                       (jmul negativeRecall (Fin (real negativeSupport)))) total;
          weightedF1 =
            jdiv (jadd (jmul f1Score (Fin (real positiveSupport)))
                       (jmul negativeF1 (Fin (real negativeSupport)))) total;
          rocAuc =
            (if length probabilities = length actuals
             then Some (calculateROCAUC actuals probabilities) else None)
      in \<lparr> m_accuracy = accuracy, m_precision = precision, m_recall = recall,
           m_f1Score = f1Score,
           m_confusionMatrix =
             \<lparr> cm_truePositive = tp, cm_trueNegative = tn,
               cm_falsePositive = fp, cm_falseNegative = fn \<rparr>,
           m_rocAuc = rocAuc,
           m_classificationReport =
             \<lparr> rep_positive =
                 \<lparr> cr_precision = precision, cr_recall = recall, cr_f1Score = f1Score,
                   cr_support = positiveSupport \<rparr>,
               rep_negative =
                 \<lparr> cr_precision = negativePrecision, cr_recall = negativeRecall,
                   cr_f1Score = negativeF1, cr_support = negativeSupport \<rparr>,
               rep_macro =
                 \<lparr> av_precision = macroPrecision, av_recall = macroRecall,
                   av_f1Score = macroF1 \<rparr>,
               rep_weighted =
                 \<lparr> av_precision = weightedPrecision, av_recall = weightedRecall,
                   av_f1Score = weightedF1 \<rparr> \<rparr> \<rparr>)"

record DataQuality =
  dq_totalSamples :: nat
  dq_positive :: nat
  dq_negative :: nat
  dq_missingValueRate :: jsnum
  dq_outlierRate :: jsnum

text \<open>
  The outlier rate of \<open>assessDataQuality\<close> for a column of values: the values are sorted,
  the quartiles are read at the indices \<open>floor(n * 0.25)\<close> and \<open>floor(n * 0.75)\<close>, and the
  values outside the fences \<open>q1 - 1.5 * iqr\<close> and \<open>q3 + 1.5 * iqr\<close> are counted.
\<close>

definition iqrOutlierRate :: "jsnum list \<Rightarrow> jsnum" where
  "iqrOutlierRate column =
     (let successRates = js_sort jsub column;
          q1 = nth_js successRates (nat \<lfloor>real (length successRates) * 0.25\<rfloor>);
          q3 = nth_js successRates (nat \<lfloor>real (length successRates) * 0.75\<rfloor>);
          iqr = jsub q3 q1;
          lowerBound = jsub q1 (jmul (Fin 1.5) iqr);
          upperBound = jadd q3 (jmul (Fin 1.5) iqr);
          outliers = length (filter (\<lambda>sr. jlt sr lowerBound \<or> jgt sr upperBound) successRates)
      in jdiv (Fin (real outliers)) (Fin (real (length successRates))))"

text \<open>\<open>f[f.length - 6]\<close>: the index is negative, and the read \<open>undefined\<close>, on a short array.\<close>

definition sixthFromEnd :: "jsnum list \<Rightarrow> jsnum" where
  "sixthFromEnd f = (if 6 \<le> length f then nth_js f (length f - 6) else NaN)"

definition assessDataQuality :: "Runtime \<Rightarrow> Habit list \<Rightarrow> HabitLog list \<Rightarrow> DataQuality" where
  "assessDataQuality rt habits logs =
     (let td = createTrainingData rt habits logs;
          features = td_features td;
          labels = td_labels td
      in if length features = 0
         then \<lparr> dq_totalSamples = 0, dq_positive = 0, dq_negative = 0,
                dq_missingValueRate = Fin 0, dq_outlierRate = Fin 0 \<rparr>
         else
           (let positive = length (filter (\<lambda>l. jseq l (Fin 1)) labels);
                negative = length labels - positive;
                missingCount =
                  foldl (\<lambda>c feature.
                           c + length (filter (\<lambda>i. jseq (nth_js feature i) (Fin 0.5)) [5..<13]))
                        0 features;
                totalFeatures = 8 * length features;
                missingValueRate =
                  (if 0 < totalFeatures
                   then jdiv (Fin (real missingCount)) (Fin (real totalFeatures)) else Fin 0);
                outlierRate = iqrOutlierRate (map sixthFromEnd features)
            in \<lparr> dq_totalSamples = length features, dq_positive = positive,
                 dq_negative = negative, dq_missingValueRate = missingValueRate,
                 dq_outlierRate = outlierRate \<rparr>))"

section \<open>Prediction engine (prediction-engine.ts)\<close>

record MLModelState =
  ms_isTrained :: bool
  ms_trainingDate :: "int option"
  ms_totalSamples :: nat
  ms_accuracy :: "jsnum option"
  ms_featureImportance :: "(string \<times> jsnum) list option"

record ModelPerformanceReport =
  pr_logisticRegression :: ModelMetrics
  pr_decisionTree :: ModelMetrics
  pr_ensemble :: ModelMetrics
  pr_crossValidationScores :: "jsnum list"
  pr_learningCurve :: "(nat \<times> jsnum \<times> jsnum) list"
  pr_featureImportance :: "(string \<times> jsnum) list"
  pr_dataQuality :: DataQuality

record PredictionEngine =
  pe_logisticRegression :: LogisticRegression
  pe_decisionTree :: DecisionTree
  pe_modelState :: MLModelState
  pe_minLogsForML :: nat
  pe_featureImportance :: "(string \<times> jsnum) list"
  pe_performanceReport :: "ModelPerformanceReport option"

definition newPredictionEngine :: PredictionEngine where
  "newPredictionEngine =
     \<lparr> pe_logisticRegression = newLogisticRegression (Fin 0.01) 500,
       pe_decisionTree = newDecisionTree 4 3,
       pe_modelState =
         \<lparr> ms_isTrained = False, ms_trainingDate = None, ms_totalSamples = 0,
           ms_accuracy = None, ms_featureImportance = None \<rparr>,
       pe_minLogsForML = 10,
       pe_featureImportance = [],
       pe_performanceReport = None \<rparr>"

text \<open>A value that has been thrown.\<close>

datatype exn = Thrown string

definition untrainedState :: "nat \<Rightarrow> MLModelState" where
  "untrainedState totalSamples =
     \<lparr> ms_isTrained = False, ms_trainingDate = None, ms_totalSamples = totalSamples,
       ms_accuracy = None, ms_featureImportance = None \<rparr>"

text \<open>
  \<open>PredictionEngine.train\<close>. The result is the value of the call: \<open>Inl\<close> an exception
  that leaves the method, \<open>Inr\<close> the engine after the call with the model state that is
  returned. The statements of the \<open>try\<close> block before the assignment of the trained state
  (the split, the training of the two models, the metrics, the cross-validation, the learning
  curve, the feature importance, the data quality and the report) are the argument
  \<open>tryBlock\<close>: it is given the engine and the training data, and gives back the engine as
  these statements have left it, with the exception that ended them (\<open>Inl\<close>) or the
  accuracy of the ensemble (\<open>Inr\<close>). Nothing is assumed about it.
\<close>

definition train ::
  "(PredictionEngine \<Rightarrow> Habit list \<Rightarrow> HabitLog list \<Rightarrow> TrainingData \<Rightarrow> PredictionEngine \<times> (exn + jsnum))
   \<Rightarrow> Runtime \<Rightarrow> PredictionEngine \<Rightarrow> Habit list \<Rightarrow> HabitLog list
   \<Rightarrow> exn + (PredictionEngine \<times> MLModelState)" where
  "train tryBlock rt eng habits logs =
     (if length logs < pe_minLogsForML eng
      then Inr (eng \<lparr> pe_modelState := untrainedState (length logs) \<rparr>,
                untrainedState (length logs))
      else
        (let td = createTrainingData rt habits logs
         in if length (td_features td) = 0
            then Inr (eng \<lparr> pe_modelState := untrainedState 0 \<rparr>, untrainedState 0)
            else
              (case tryBlock eng habits logs td of
                 (eng', Inr accuracy) \<Rightarrow>
                   (let st = \<lparr> ms_isTrained = True, ms_trainingDate = Some (r_now rt),
                                ms_totalSamples = length (td_features td),
                                ms_accuracy = Some accuracy,
                                ms_featureImportance = Some (pe_featureImportance eng') \<rparr>
                    in Inr (eng' \<lparr> pe_modelState := st \<rparr>, st))
               | (eng', Inl error) \<Rightarrow>
                   Inr (eng' \<lparr> pe_modelState := untrainedState (length (td_features td)) \<rparr>,
                        untrainedState (length (td_features td))))))"

record Prediction =
  p_habitId :: string
  p_habitName :: string
  p_category :: string
  p_probability :: jsnum
  p_confidence :: Confidence
  p_explanation :: string
  p_streak :: nat
  p_successRate :: real

text \<open>
  The probability of \<open>generateHeuristicPrediction\<close>. The statistics are finite numbers, so
  the arithmetic is the arithmetic of the reals.
\<close>

definition heuristicProbability :: "HabitStats \<Rightarrow> real" where
  "heuristicProbability stats =
     (let probability = 0.5;
          probability = probability + (s_successRate stats - 0.5) * 0.4;
          streakBonus = min (real (s_currentStreak stats) / 7) 1 * 0.3;
          probability = probability + streakBonus;
          recencyPenalty = min (real_of_int (s_daysSinceLastLog stats) / 7) 1 * 0.3;
          probability = probability - recencyPenalty
      in max 0 (min 1 probability))"

definition generateHeuristicPrediction :: "Runtime \<Rightarrow> Habit \<Rightarrow> HabitLog list \<Rightarrow> Prediction" where
  "generateHeuristicPrediction rt habit logs =
     (let stats = calculateHabitStats (r_now rt) habit logs;
          probability = heuristicProbability stats;
          confidence = (if 0.7 < probability then high else if 0.4 < probability then medium else low);
          explanation =
            ''Heuristic prediction: ''
            @ (if 0.7 < s_successRate stats then ''Good track record. '' else [])
            @ (if 3 < s_currentStreak stats then ''Strong current streak. '' else [])
            @ (if 3 < s_daysSinceLastLog stats then ''Haven't logged recently. '' else [])
      in \<lparr> p_habitId = h_id habit, p_habitName = h_name habit, p_category = h_category habit,
           p_probability = Fin probability, p_confidence = confidence,
           p_explanation = explanation, p_streak = s_currentStreak stats,
           p_successRate = s_successRate stats \<rparr>)"

text \<open>The predictions before they are sorted: one for every active habit, in the order of the habits.\<close>

definition activePredictions :: "Runtime \<Rightarrow> Habit list \<Rightarrow> HabitLog list \<Rightarrow> Prediction list" where
  "activePredictions rt habits logs =
     map (\<lambda>habit. generateHeuristicPrediction rt habit logs) (filter h_isActive habits)"

definition predictForDate :: "Runtime \<Rightarrow> Habit list \<Rightarrow> HabitLog list \<Rightarrow> int \<Rightarrow> Prediction list" where
  "predictForDate rt habits logs targetDate =
     js_sort (\<lambda>a b. jsub (p_probability b) (p_probability a)) (activePredictions rt habits logs)"

section \<open>The prediction engine with learned predictions (src/unnamed/part_014)\<close>

text \<open>
  The repository holds a second \<open>PredictionEngine\<close>, whose \<open>predictForDate\<close> uses the two
  models for a habit with enough logs once the engine is trained. Its names carry the
  suffix \<open>_ml\<close> here. It imports \<open>extractFeatures\<close>, \<open>encodeFeatures\<close> and
  \<open>createTrainingData\<close> from \<open>@/lib/ml-features\<close>, the module from which
  \<open>prediction-engine.ts\<close> imports \<open>calculateFeatureImportance\<close>; that is \<open>ml-features.ts\<close>,
  the functions of the section on feature engineering.
\<close>

record PredictionEngine_ml =
  pm_logisticRegression :: LogisticRegression
  pm_decisionTree :: DecisionTree
  pm_isTrained :: bool
  pm_minLogsForML :: nat



text \<open>A whole number in a template string, and \<open>Math.round\<close>.\<close>

definition digitChar :: "nat \<Rightarrow> char" where
  "digitChar n = ''0123456789'' ! (n mod 10)"

function showNat :: "nat \<Rightarrow> string" where
  "showNat n = (if n < 10 then [digitChar n] else showNat (n div 10) @ [digitChar n])"
  by pat_completeness auto
termination
  by (relation "measure (\<lambda>n. n)") auto

declare showNat.simps [simp del]

definition showInt :: "int \<Rightarrow> string" where
  "showInt i = (if i < 0 then CHR ''-'' # showNat (nat (- i)) else showNat (nat i))"

definition mathRound :: "real \<Rightarrow> int" where
  "mathRound x = \<lfloor>x + 1 / 2\<rfloor>"

text \<open>\<open>factors.join(", ")\<close>.\<close>

fun joinComma :: "string list \<Rightarrow> string" where
  "joinComma [] = []"
| "joinComma [x] = x"
| "joinComma (x # y # rest) = x @ '', '' @ joinComma (y # rest)"

definition heuristicProbability_ml :: "HabitStats \<Rightarrow> real" where
  "heuristicProbability_ml stats =
     (let probability = 0.5;
          probability = probability + (s_successRate stats - 0.5) * 0.4;
          streakBonus = min (real (s_currentStreak stats) / 7) 1 * 0.3;
          probability = probability + streakBonus;
          recencyPenalty = min (real_of_int (s_daysSinceLastLog stats) / 7) 1 * 0.3;
          probability = probability - recencyPenalty
      in max 0.1 (min 0.9 probability))"

definition generateHeuristicPrediction_ml :: "Runtime \<Rightarrow> Habit \<Rightarrow> HabitLog list \<Rightarrow> Prediction" where
  "generateHeuristicPrediction_ml rt habit logs =
     (let stats = calculateHabitStats (r_now rt) habit logs;
          probability = heuristicProbability_ml stats;
          confidence = (if 3 < s_totalLogs stats then medium else low);
          factors =
            (if 0.7 < s_successRate stats
             then [''high success rate ('' @ showInt (mathRound (s_successRate stats * 100)) @ ''%)'']
             else if s_successRate stats < 0.3
             then [''low success rate ('' @ showInt (mathRound (s_successRate stats * 100)) @ ''%)'']
             else [])
            @ (if 2 < s_currentStreak stats
               then [showNat (s_currentStreak stats) @ ''-day streak''] else [])
            @ (if 3 < s_daysSinceLastLog stats
               then [showInt (s_daysSinceLastLog stats) @ '' days since last completion'']
               else []);
          explanation =
            ''Based on your habit history: ''
            @ (if length factors = 0 then ''limited data available'' else joinComma factors)
      in \<lparr> p_habitId = h_id habit, p_habitName = h_name habit, p_category = h_category habit,
           p_probability = Fin probability, p_confidence = confidence,
           p_explanation = explanation, p_streak = s_currentStreak stats,
           p_successRate = s_successRate stats \<rparr>)"

definition dayName :: "nat \<Rightarrow> string" where
  "dayName d =
     [''Sunday'', ''Monday'', ''Tuesday'', ''Wednesday'', ''Thursday'', ''Friday'', ''Saturday''] ! (d mod 7)"

definition timeName :: "TimeOfDay \<Rightarrow> string" where
  "timeName t =
     (case t of morning \<Rightarrow> ''morning'' | afternoon \<Rightarrow> ''afternoon''
      | evening \<Rightarrow> ''evening'' | anytime \<Rightarrow> ''anytime'')"

definition generateMLPrediction ::
  "Runtime \<Rightarrow> PredictionEngine_ml \<Rightarrow> Habit \<Rightarrow> HabitLog list \<Rightarrow> int \<Rightarrow> Prediction" where
  "generateMLPrediction rt eng habit logs targetDate =
     (let features = extractFeatures rt habit logs (Some targetDate);
          encodedFeatures = encodeFeatures features;
          lrPrediction = lr_predict (pm_logisticRegression eng) encodedFeatures;
          dtPrediction = dt_predict (pm_decisionTree eng) encodedFeatures;
          probability = jadd (jmul lrPrediction (Fin 0.6)) (jmul dtPrediction (Fin 0.4));
          stats = calculateHabitStats (r_now rt) habit logs;
          confidence = (if 20 < length logs then high else if 10 < length logs then medium else low);
          factors =
            (if 0.7 < s_successRate stats
             then [''strong track record ('' @ showInt (mathRound (s_successRate stats * 100)) @ ''%)'']
             else [])
            @ (if 0 < s_currentStreak stats
               then [''current '' @ showNat (s_currentStreak stats) @ ''-day streak''] else [])
            @ [dayName (getDay rt targetDate) @ '' patterns'']
            @ (if h_preferredTime habit \<noteq> anytime
               then [timeName (h_preferredTime habit) @ '' timing''] else []);
          explanation = ''AI prediction based on: '' @ joinComma factors
      in \<lparr> p_habitId = h_id habit, p_habitName = h_name habit, p_category = h_category habit,
           p_probability = probability, p_confidence = confidence,
           p_explanation = explanation, p_streak = s_currentStreak stats,
           p_successRate = s_successRate stats \<rparr>)"

text \<open>The prediction of one active habit: learned or heuristic.\<close>

definition predictHabit_ml ::
  "Runtime \<Rightarrow> PredictionEngine_ml \<Rightarrow> HabitLog list \<Rightarrow> int \<Rightarrow> Habit \<Rightarrow> Prediction" where
  "predictHabit_ml rt eng logs targetDate habit =
     (let habitLogs = filter (\<lambda>lg. l_habitId lg = h_id habit) logs
      in if pm_isTrained eng \<and> pm_minLogsForML eng \<le> length habitLogs
         then generateMLPrediction rt eng habit logs targetDate
         else generateHeuristicPrediction_ml rt habit logs)"

definition activePredictions_ml ::
  "Runtime \<Rightarrow> PredictionEngine_ml \<Rightarrow> Habit list \<Rightarrow> HabitLog list \<Rightarrow> int \<Rightarrow> Prediction list" where
  "activePredictions_ml rt eng habits logs targetDate =
     map (predictHabit_ml rt eng logs targetDate) (filter h_isActive habits)"

definition predictForDate_ml ::
  "Runtime \<Rightarrow> PredictionEngine_ml \<Rightarrow> Habit list \<Rightarrow> HabitLog list \<Rightarrow> int \<Rightarrow> Prediction list" where
  "predictForDate_ml rt eng habits logs targetDate =
     js_sort (\<lambda>a b. jsub (p_probability b) (p_probability a))
       (activePredictions_ml rt eng habits logs targetDate)"

text \<open>A number that is neither NaN nor infinite.\<close>

definition isFinite :: "jsnum \<Rightarrow> bool" where
  "isFinite a = (case a of Fin _ \<Rightarrow> True | _ \<Rightarrow> False)"

text \<open>The probability of a prediction as a real, when it is a finite number.\<close>

definition probabilityOf :: "Prediction \<Rightarrow> real" where
  "probabilityOf p = (case p_probability p of Fin r \<Rightarrow> r | _ \<Rightarrow> 0)"

section \<open>Example data\<close>

definition exampleHabit :: "string \<Rightarrow> Habit" where
  "exampleHabit i =
     \<lparr> h_id = i, h_name = ''Exercise'', h_category = ''Health'', h_preferredTime = morning,
       h_createdAt = 0, h_isActive = True \<rparr>"

text \<open>A log of a habit for a day, completed or not, without contextual fields.\<close>

definition exampleLog :: "string \<Rightarrow> int \<Rightarrow> bool \<Rightarrow> HabitLog" where
  "exampleLog h d c =
     \<lparr> l_id = [], l_habitId = h, l_date = d, l_completed = c, l_mood = None,
       l_sleepHours = None, l_energyLevel = None, l_stressLevel = None, l_weather = None,
       l_loggedAt = dateTime d \<rparr>"



text \<open>A runtime whose clock reads \<open>t\<close> and whose local time is UTC.\<close>

definition utc :: "int \<Rightarrow> Runtime" where
  "utc t = \<lparr> r_now = t, r_tzOffset = (\<lambda>_. 0) \<rparr>"

section \<open>Basic facts about JavaScript numbers\<close>

lemma jmul_NaN_right [simp]: "jmul a NaN = NaN"
  by (cases a) simp_all

lemma jadd_NaN_right [simp]: "jadd a NaN = NaN"
  by (cases a) simp_all

lemma jlt_NaN_right [simp]: "\<not> jlt a NaN"
  by (cases a) simp_all

lemma jle_NaN [simp]: "\<not> jle a NaN" "\<not> jle NaN a"
  by (simp_all add: jle_def jseq_def)

lemmas example_defs =
  exampleHabit_def exampleLog_def utc_def dateTime_def msPerDay_def

lemmas feature_defs =
  calculateHabitStats_def createTrainingData_def trainingSamples_def encodeFeatures_def
  extractFeatures_def recentLogOf_def timeEncoding_def weatherEncoding_def js_sort_def
  jgt_def Let_def

section \<open>Sorting\<close>

text \<open>
  When the comparator is the difference of a finite key, taken in descending order,
  \<open>js_sort\<close> is the stable sort of the library by the negated key.
\<close>

lemma js_insert_insort_key:
  fixes k :: "'a \<Rightarrow> real"
  assumes "\<And>y. y \<in> set ys \<Longrightarrow> jgt (cmp x y) (Fin 0) = (k x < k y)"
  shows "js_insert cmp x ys = insort_key (\<lambda>x. - k x) x ys"
  using assms by (induction ys) (auto simp: not_le)

lemma js_sort_sort_key:
  fixes k :: "'a \<Rightarrow> real"
  assumes "\<And>x y. x \<in> set xs \<Longrightarrow> y \<in> set xs \<Longrightarrow> jgt (cmp x y) (Fin 0) = (k x < k y)"
  shows "js_sort cmp xs = sort_key (\<lambda>x. - k x) xs"
  using assms
proof (induction xs)
  case Nil
  then show ?case by (simp add: js_sort_def)
next
  case (Cons x xs)
  have "js_sort cmp (x # xs) = js_insert cmp x (js_sort cmp xs)"
    by (simp add: js_sort_def)
  also have "\<dots> = js_insert cmp x (sort_key (\<lambda>x. - k x) xs)"
    using Cons by simp
  also have "\<dots> = insort_key (\<lambda>x. - k x) x (sort_key (\<lambda>x. - k x) xs)"
    using Cons.prems by (intro js_insert_insort_key) auto
  finally show ?case by simp
qed

lemma mset_js_insert: "mset (js_insert cmp x ys) = add_mset x (mset ys)"
  by (induction ys) auto

lemma mset_js_sort: "mset (js_sort cmp xs) = mset xs"
  by (induction xs) (simp_all add: js_sort_def mset_js_insert)

lemma set_js_sort: "set (js_sort cmp xs) = set xs"
  using mset_js_sort [of cmp xs] by (metis set_mset_mset)

lemma length_js_sort: "length (js_sort cmp xs) = length xs"
  using mset_js_sort [of cmp xs] by (metis size_mset)

section \<open>Habit statistics\<close>

text \<open>
  Claim C3. A habit has ten logs on ten consecutive days, the first eight completed and the
  last two not, and the statistics are computed two days after the most recent log. The
  claim expects a current streak of 0, a longest streak of 8, a success rate of 0.8 and 2
  days since the last log. The code gives the first three, and 11 days since the last log:
  after the in-place \<open>reverse()\<close> the array starts with the oldest log, and the days are
  counted from it. (Computed on the day of the most recent log, which is two days after the
  last completed one, the days since the last log are 9.)
\<close>

theorem C3_stats_of_eight_completed_two_failed:
  "calculateHabitStats (dateTime 12) (exampleHabit ''h1'')
     (map (\<lambda>d. exampleLog ''h1'' d (d \<le> 8)) [1, 2, 3, 4, 5, 6, 7, 8, 9, 10])
   = \<lparr> s_habitId = ''h1'', s_totalLogs = 10, s_completedLogs = 8, s_successRate = 4 / 5,
       s_currentStreak = 0, s_longestStreak = 8, s_daysSinceLastLog = 11 \<rparr>
   \<and> s_daysSinceLastLog (calculateHabitStats (dateTime 10) (exampleHabit ''h1'')
       (map (\<lambda>d. exampleLog ''h1'' d (d \<le> 8)) [1, 2, 3, 4, 5, 6, 7, 8, 9, 10])) = 9"
  by (simp add: example_defs feature_defs)

lemma sorted_le_last:
  fixes xs :: "real list"
  shows "sorted xs \<Longrightarrow> y \<in> set xs \<Longrightarrow> y \<le> last xs"
  by (induction xs) auto

text \<open>
  In general: when the habit has logs, the days since the last log are counted from a log
  of the habit with the earliest date.
\<close>

lemma daysSinceLastLog_counts_from_oldest:
  assumes "filter (\<lambda>lg. l_habitId lg = h_id habit) logs \<noteq> []"
  shows "\<exists>oldest\<in>set (filter (\<lambda>lg. l_habitId lg = h_id habit) logs).
           (\<forall>lg\<in>set (filter (\<lambda>lg. l_habitId lg = h_id habit) logs). l_date oldest \<le> l_date lg)
           \<and> s_daysSinceLastLog (calculateHabitStats now habit logs)
               = (now - dateTime (l_date oldest)) div msPerDay"
proof -
  let ?hl = "filter (\<lambda>lg. l_habitId lg = h_id habit) logs"
  let ?f = "\<lambda>lg. - real_of_int (dateTime (l_date lg))"
  let ?ys = "sort_key ?f ?hl"
  have eq: "js_sort (\<lambda>a b. Fin (real_of_int (dateTime (l_date b) - dateTime (l_date a)))) ?hl = ?ys"
    by (rule js_sort_sort_key) (simp add: jgt_def)
  have ne: "?ys \<noteq> []"
    using assms by (metis length_0_conv length_sort)
  then obtain rest where r: "rev ?ys = last ?ys # rest"
    by (cases ?ys rule: rev_cases) simp_all
  have days: "s_daysSinceLastLog (calculateHabitStats now habit logs)
      = (now - dateTime (l_date (last ?ys))) div msPerDay"
    unfolding calculateHabitStats_def Let_def eq r by simp
  have mem: "last ?ys \<in> set ?hl"
    using ne last_in_set [of ?ys] by simp
  have "sorted (map ?f ?ys)"
    by simp
  then have "?f y \<le> last (map ?f ?ys)" if "y \<in> set ?ys" for y
    using that by (intro sorted_le_last) auto
  then have "?f y \<le> ?f (last ?ys)" if "y \<in> set ?hl" for y
    using that ne by (simp add: last_map)
  then have "\<forall>lg\<in>set ?hl. l_date (last ?ys) \<le> l_date lg"
    by (auto simp: dateTime_def msPerDay_def)
  then show ?thesis
    using mem days by blast
qed

section \<open>The encoded vector\<close>

lemma timeEncoding_length [simp]: "length (timeEncoding t) = 4"
  by (cases t) (simp_all add: timeEncoding_def)

lemma weatherEncoding_length [simp]: "length (weatherEncoding w) = 4"
  by (simp add: weatherEncoding_def split: option.splits Weather.splits)

lemma encode_length: "length (encodeFeatures f) = 19"
  by (simp add: encodeFeatures_def)

lemma encode_prefix:
  "take 14 (encodeFeatures f)
     = [jdiv (Fin (real (f_dayOfWeek f))) (Fin 6)] @ timeEncoding (f_timeOfDay f)
       @ [moodValue (f_mood f), sleepValue (f_sleepHours f), energyValue (f_energyLevel f),
          stressValue (f_stressLevel f)]
       @ weatherEncoding (f_weather f)
       @ [jmin (jdiv (jlog1p (Fin (real (f_streak f)))) (jlog1p (Fin 30))) (Fin 1)]"
  by (simp add: encodeFeatures_def)

lemma encode_suffix:
  "drop 15 (encodeFeatures f)
     = [Fin (f_successRate f),
        jdiv (Fin (real (categoryHash (f_category f) mod 100))) (Fin 100),
        jmin (jdiv (jlog1p (Fin (real_of_int (f_daysSinceCreated f)))) (jlog1p (Fin 365))) (Fin 1),
        (if f_isWeekend f then Fin 1 else Fin 0)]"
  by (simp add: encodeFeatures_def)

lemma encode_slots:
  "encodeFeatures f ! 5 = moodValue (f_mood f)"
  "encodeFeatures f ! 6 = sleepValue (f_sleepHours f)"
  "encodeFeatures f ! 7 = energyValue (f_energyLevel f)"
  "encodeFeatures f ! 8 = stressValue (f_stressLevel f)"
  "take 4 (drop 9 (encodeFeatures f)) = weatherEncoding (f_weather f)"
  by (simp_all add: encodeFeatures_def nth_append)

lemma encoded_slots_13_15:
  "encodeFeatures f ! 13 = jmin (jdiv (jlog1p (Fin (real (f_streak f)))) (jlog1p (Fin 30))) (Fin 1)"
  "encodeFeatures f ! 15 = Fin (f_successRate f)"
  by (simp_all add: encodeFeatures_def nth_append)

section \<open>Training data\<close>

text \<open>
  Claim C1. A habit has a failed log on day 1 and a completed log on day 5. The first
  training sample is the one of day 1, and its success-rate feature (index 15 of the encoded
  vector) is 1/2, not 0: \<open>extractFeatures\<close> computes the statistics from all logs of the
  habit, whatever the date of the sample.
\<close>

theorem C1_day1_sample_counts_day5_log:
  "td_metadata (createTrainingData rt [exampleHabit ''h1'']
       [exampleLog ''h1'' 1 False, exampleLog ''h1'' 5 True]) ! 0 = (''h1'', 1)
   \<and> td_features (createTrainingData rt [exampleHabit ''h1'']
       [exampleLog ''h1'' 1 False, exampleLog ''h1'' 5 True]) ! 0 ! 15 = Fin (1 / 2)"
  by (simp add: example_defs feature_defs)

section \<open>Data quality\<close>

text \<open>
  Claim C4. Habit a has one failed log; habit b has two completed logs and then a failed
  one. The success rates of the four samples are 0, 2/3, 2/3, 2/3, and the 1.5 IQR rule on
  that column (index 15) finds one outlier in four. All current streaks are 0, so the
  streak column (index 13, which is \<open>f.length - 6\<close> in a vector of 19) is constant, and
  \<open>assessDataQuality\<close>, which reads that column, reports an outlier rate of 0.
\<close>

theorem C4_outlier_rate_reads_streak_column:
  "dq_outlierRate (assessDataQuality rt [exampleHabit ''a'', exampleHabit ''b'']
      [exampleLog ''a'' 1 False, exampleLog ''b'' 1 True, exampleLog ''b'' 2 True,
       exampleLog ''b'' 3 False]) = Fin 0
   \<and> iqrOutlierRate (map (\<lambda>f. nth_js f 15)
        (td_features (createTrainingData rt [exampleHabit ''a'', exampleHabit ''b'']
           [exampleLog ''a'' 1 False, exampleLog ''b'' 1 True, exampleLog ''b'' 2 True,
            exampleLog ''b'' 3 False]))) = Fin (1 / 4)"
  by (simp add: example_defs feature_defs assessDataQuality_def iqrOutlierRate_def
      sixthFromEnd_def nth_js_def jsub_def jmin_def)

text \<open>
  In general: every training vector is an encoded vector of 19 slots, \<open>f.length - 6\<close> is
  the index 13, which holds the streak, and the outlier rate is computed from that column.
\<close>

lemma sixthFromEnd_encoded: "sixthFromEnd (encodeFeatures f) = encodeFeatures f ! 13"
  by (simp add: sixthFromEnd_def encode_length nth_js_def)

lemma training_features_encoded:
  "f \<in> set (td_features (createTrainingData rt habits logs)) \<Longrightarrow> \<exists>m. f = encodeFeatures m"
  by (auto simp: createTrainingData_def trainingSamples_def Let_def)

lemma assessDataQuality_reads_streak_column:
  assumes "td_features (createTrainingData rt habits logs) \<noteq> []"
  shows "dq_outlierRate (assessDataQuality rt habits logs)
       = iqrOutlierRate (map (\<lambda>f. f ! 13) (td_features (createTrainingData rt habits logs)))"
proof -
  have "sixthFromEnd f = f ! 13" if "f \<in> set (td_features (createTrainingData rt habits logs))"
    for f
    using training_features_encoded [OF that] sixthFromEnd_encoded by auto
  then have "map sixthFromEnd (td_features (createTrainingData rt habits logs))
      = map (\<lambda>f. f ! 13) (td_features (createTrainingData rt habits logs))"
    by (intro map_cong) simp_all
  then have "iqrOutlierRate (map sixthFromEnd (td_features (createTrainingData rt habits logs)))
      = iqrOutlierRate (map (\<lambda>f. f ! 13) (td_features (createTrainingData rt habits logs)))"
    by (rule arg_cong)
  then show ?thesis
    using assms by (simp add: assessDataQuality_def Let_def)
qed

section \<open>Untrained models\<close>

lemma weightedSum_no_weights_NaN: "weightedSum xs [] i NaN = NaN"
  by (induction xs arbitrary: i) (simp_all add: nth_js_def)

lemma lr_predict_untrained_nonempty:
  "x \<noteq> [] \<Longrightarrow> lr_predict (newLogisticRegression learningRate iterations) x = NaN"
  by (cases x)
     (simp_all add: lr_predict_def newLogisticRegression_def sigmoid_def nth_js_def jmin_def
        jmax_def weightedSum_no_weights_NaN)

text \<open>
  Claim C2, as amended. An untrained decision tree predicts 0.5 for every vector. An
  untrained logistic regression has no weights: it predicts 0.5 for the empty vector, and
  NaN for every other vector, because each product \<open>feature * weights[i]\<close> reads a weight
  that does not exist.
\<close>

theorem C2_untrained_predictions:
  "dt_predict (newDecisionTree maxDepth minSamples) x = Fin 0.5
   \<and> lr_predict (newLogisticRegression learningRate iterations) [] = Fin 0.5
   \<and> (x \<noteq> [] \<longrightarrow> lr_predict (newLogisticRegression learningRate iterations) x = NaN)"
  by (simp add: lr_predict_untrained_nonempty dt_predict_def newDecisionTree_def)
     (simp add: lr_predict_def newLogisticRegression_def sigmoid_def jmin_def jmax_def)

theorem C2_untrained_predictions_witness:
  "[Fin 1, Fin 2, Fin 3] \<noteq> []
   \<and> dt_predict (newDecisionTree 5 2) [Fin 1, Fin 2, Fin 3] = Fin 0.5
   \<and> lr_predict (newLogisticRegression (Fin 0.01) 1000) [Fin 1, Fin 2, Fin 3] = NaN"
  using C2_untrained_predictions [of 5 2 "[Fin 1, Fin 2, Fin 3]" "Fin 0.01" 1000] by simp

text \<open>
  The claim as it was stated fails for the logistic regression: the untrained model does
  not predict 0.5 for the vector (1, 2, 3).
\<close>

theorem C2_untrained_logistic_counterexample:
  "lr_predict (newLogisticRegression (Fin 0.01) 1000) [Fin 1, Fin 2, Fin 3] \<noteq> Fin 0.5"
  by (simp add: lr_predict_untrained_nonempty)

section \<open>Predictions of a decision tree\<close>

text \<open>
  Two samples with one feature, 0 with the label 0 and 1 with the label 1: the tree splits
  at 0.5 into a leaf that stores 0 and a leaf that stores 1.
\<close>

lemma buildTree_two_samples:
  "buildTree 4 2 [[Fin 0], [Fin 1]] [Fin 0, Fin 1] 0
     = Split 0 (Fin (1 / 2)) (Leaf (Fin 0)) (Leaf (Fin 1))"
  by (simp add: findBestSplit_def considerSplit_def leftIndices_def rightIndices_def
      calculateGini_def meanLabel_def js_sort_def jsub_def jgt_def jle_def jseq_def nth_js_def
      Let_def upt_rec)

text \<open>
  Claim C10. For every state of a decision tree and every input vector, \<open>predict\<close> is not
  0. After training on a non-empty feature matrix the root is the tree that \<open>buildTree\<close>
  returns; if the leaf that the walk reaches stores 0, the result is 0.5; and the result
  is either 0.5 or the value stored in that leaf, which is then not 0.
\<close>

theorem C10_trained_tree_never_predicts_zero:
  "dt_predict t x \<noteq> Fin 0
   \<and> (features \<noteq> [] \<longrightarrow>
        dt_root (dt_train t features labels)
          = Some (buildTree (dt_maxDepth t) (dt_minSamples t) features labels 0)
        \<and> dt_predict (dt_train t features labels) x \<noteq> Fin 0
        \<and> (reachedLeaf (buildTree (dt_maxDepth t) (dt_minSamples t) features labels 0) x = Fin 0
             \<longrightarrow> dt_predict (dt_train t features labels) x = Fin 0.5)
        \<and> (dt_predict (dt_train t features labels) x = Fin 0.5
           \<or> (dt_predict (dt_train t features labels) x
                 = reachedLeaf (buildTree (dt_maxDepth t) (dt_minSamples t) features labels 0) x
               \<and> reachedLeaf (buildTree (dt_maxDepth t) (dt_minSamples t) features labels 0) x
                 \<noteq> Fin 0)))"
  by (simp add: dt_train_def dt_predict_def jor_def truthy_def split: option.splits
      del: buildTree.simps)

text \<open>
  The tree trained on these two samples predicts 0.5 for the input 0, whose leaf stores 0,
  and 1 for the input 1.
\<close>

theorem C10_trained_tree_never_predicts_zero_witness:
  "[[Fin 0], [Fin 1]] \<noteq> []
   \<and> dt_root (dt_train (newDecisionTree 4 2) [[Fin 0], [Fin 1]] [Fin 0, Fin 1])
       = Some (Split 0 (Fin (1 / 2)) (Leaf (Fin 0)) (Leaf (Fin 1)))
   \<and> reachedLeaf (buildTree 4 2 [[Fin 0], [Fin 1]] [Fin 0, Fin 1] 0) [Fin 0] = Fin 0
   \<and> dt_predict (dt_train (newDecisionTree 4 2) [[Fin 0], [Fin 1]] [Fin 0, Fin 1]) [Fin 0]
       = Fin 0.5
   \<and> dt_predict (dt_train (newDecisionTree 4 2) [[Fin 0], [Fin 1]] [Fin 0, Fin 1]) [Fin 1]
       = Fin 1"
  using C10_trained_tree_never_predicts_zero
      [of "newDecisionTree 4 2" "[Fin 0]" "[[Fin 0], [Fin 1]]" "[Fin 0, Fin 1]"]
  by (simp add: buildTree_two_samples dt_train_def dt_predict_def newDecisionTree_def jor_def
      truthy_def jle_def jseq_def nth_js_def del: buildTree.simps)

section \<open>Training never throws\<close>

text \<open>
  Claim C6. Whatever the statements of the \<open>try\<close> block do, \<open>train\<close> returns a model
  state and does not throw, and the state is the one the engine keeps. With fewer logs than
  \<open>minLogsForML\<close> the state is untrained with the number of logs; with an empty training
  set it is untrained with 0 samples; when the \<open>try\<close> block throws it is untrained with the
  number of training samples.
\<close>

theorem C6_train_returns_untrained_state:
  "\<exists>eng' st. train tryBlock rt eng habits logs = Inr (eng', st)
     \<and> pe_modelState eng' = st
     \<and> (length logs < pe_minLogsForML eng \<longrightarrow>
          \<not> ms_isTrained st \<and> ms_totalSamples st = length logs)
     \<and> (pe_minLogsForML eng \<le> length logs
          \<and> td_features (createTrainingData rt habits logs) = [] \<longrightarrow>
          \<not> ms_isTrained st \<and> ms_totalSamples st = 0)
     \<and> (pe_minLogsForML eng \<le> length logs
          \<and> td_features (createTrainingData rt habits logs) \<noteq> []
          \<and> isl (snd (tryBlock eng habits logs (createTrainingData rt habits logs))) \<longrightarrow>
          \<not> ms_isTrained st
          \<and> ms_totalSamples st = length (td_features (createTrainingData rt habits logs)))"
  by (auto simp: train_def untrainedState_def Let_def split: prod.splits sum.splits)

text \<open>
  A habit with ten logs and a \<open>try\<close> block that throws: \<open>train\<close> returns the untrained
  state with 10 samples.
\<close>

theorem C6_train_returns_untrained_state_witness:
  "pe_minLogsForML newPredictionEngine
     \<le> length (map (\<lambda>d. exampleLog ''h1'' d True) [1, 2, 3, 4, 5, 6, 7, 8, 9, 10])
   \<and> td_features (createTrainingData (utc 0) [exampleHabit ''h1'']
        (map (\<lambda>d. exampleLog ''h1'' d True) [1, 2, 3, 4, 5, 6, 7, 8, 9, 10])) \<noteq> []
   \<and> (\<exists>eng'. train (\<lambda>eng habits logs td. (eng, Inl (Thrown ''training failed'')))
          (utc 0) newPredictionEngine [exampleHabit ''h1'']
          (map (\<lambda>d. exampleLog ''h1'' d True) [1, 2, 3, 4, 5, 6, 7, 8, 9, 10])
        = Inr (eng', untrainedState 10))"
  using C6_train_returns_untrained_state
    [of "\<lambda>eng habits logs td. (eng, Inl (Thrown ''training failed''))" "utc 0"
        newPredictionEngine "[exampleHabit ''h1'']"
        "map (\<lambda>d. exampleLog ''h1'' d True) [1, 2, 3, 4, 5, 6, 7, 8, 9, 10]"]
  by (simp add: train_def newPredictionEngine_def createTrainingData_def trainingSamples_def
      exampleHabit_def exampleLog_def untrainedState_def Let_def)

section \<open>Predictions for a date\<close>

lemma isFinite_probabilityOf:
  fixes p :: Prediction
  shows "isFinite (p_probability p) \<Longrightarrow> p_probability p = Fin (probabilityOf p)"
  by (cases "p_probability p") (simp_all add: isFinite_def probabilityOf_def)

lemma sorted_descending_probability:
  assumes "sorted (map (\<lambda>p. - probabilityOf p) ps)"
    and "\<And>p. p \<in> set ps \<Longrightarrow> p_probability p = Fin (probabilityOf p)"
  shows "sorted_wrt (\<lambda>a b. jle (p_probability b) (p_probability a)) ps"
  using assms by (induction ps) (auto simp: jle_def jseq_def)

lemma same_probability_filter:
  assumes "\<And>p. p \<in> set ps \<Longrightarrow> p_probability p = Fin (probabilityOf p)"
  shows "filter (\<lambda>p. p_probability p = v) ps
       = (case v of Fin r \<Rightarrow> filter (\<lambda>p. - probabilityOf p = - r) ps | _ \<Rightarrow> [])"
  using assms by (induction ps) (auto split: jsnum.splits)

text \<open>
  Sorting predictions whose probabilities are finite numbers: the result is in
  non-increasing order of probability, and predictions of equal probability keep their
  order.
\<close>

lemma sort_finite_probabilities:
  fixes ps :: "Prediction list"
  assumes fin: "\<And>p. p \<in> set ps \<Longrightarrow> isFinite (p_probability p)"
  defines "qs \<equiv> js_sort (\<lambda>a b. jsub (p_probability b) (p_probability a)) ps"
  shows "sorted_wrt (\<lambda>a b. jle (p_probability b) (p_probability a)) qs"
    and "filter (\<lambda>p. p_probability p = v) qs = filter (\<lambda>p. p_probability p = v) ps"
proof -
  have fin_ps: "p_probability p = Fin (probabilityOf p)" if "p \<in> set ps" for p
    using that fin isFinite_probabilityOf by blast
  have eq: "qs = sort_key (\<lambda>p. - probabilityOf p) ps"
    unfolding qs_def by (rule js_sort_sort_key) (simp add: fin_ps jsub_def jgt_def)
  have fin_qs: "p_probability p = Fin (probabilityOf p)" if "p \<in> set qs" for p
    using that fin_ps by (simp add: eq)
  show "sorted_wrt (\<lambda>a b. jle (p_probability b) (p_probability a)) qs"
  proof (rule sorted_descending_probability)
    show "sorted (map (\<lambda>p. - probabilityOf p) qs)"
      by (simp add: eq)
  qed (rule fin_qs)
  have "filter (\<lambda>p. - probabilityOf p = - r) qs = filter (\<lambda>p. - probabilityOf p = - r) ps"
    for r
    unfolding eq by (rule sort_key_stable)
  then show "filter (\<lambda>p. p_probability p = v) qs = filter (\<lambda>p. p_probability p = v) ps"
    by (simp add: same_probability_filter [OF fin_qs] same_probability_filter [OF fin_ps]
        split: jsnum.splits)
qed

lemma activePredictions_finite:
  "p \<in> set (activePredictions rt habits logs) \<Longrightarrow> isFinite (p_probability p)"
  by (auto simp: activePredictions_def generateHeuristicPrediction_def isFinite_def Let_def)

lemma activePredictions_habits:
  "map p_habitId (activePredictions rt habits logs) = map h_id (filter h_isActive habits)"
  by (simp add: activePredictions_def generateHeuristicPrediction_def Let_def)

lemma activePredictions_ml_habits:
  "map p_habitId (activePredictions_ml rt eng habits logs targetDate)
     = map h_id (filter h_isActive habits)"
  by (simp add: activePredictions_ml_def predictHabit_ml_def generateHeuristicPrediction_ml_def
      generateMLPrediction_def Let_def)

text \<open>
  Both engines make one prediction for every active habit and none for an inactive one:
  before the sort the predictions are those of the active habits in the order of the
  habits, and the sort permutes them. In \<open>prediction-engine.ts\<close>, where every prediction is
  heuristic, the result is sorted by non-increasing probability, and for every probability
  the predictions with that probability stand in the order of the habits. In the engine
  with learned predictions the same holds when every probability is a finite number.
\<close>

lemma predictForDate_one_per_active_habit_sorted:
  "map p_habitId (activePredictions rt habits logs) = map h_id (filter h_isActive habits)
   \<and> mset (predictForDate rt habits logs targetDate) = mset (activePredictions rt habits logs)
   \<and> sorted_wrt (\<lambda>a b. jle (p_probability b) (p_probability a))
        (predictForDate rt habits logs targetDate)
   \<and> (\<forall>v. filter (\<lambda>p. p_probability p = v) (predictForDate rt habits logs targetDate)
          = filter (\<lambda>p. p_probability p = v) (activePredictions rt habits logs))
   \<and> map p_habitId (activePredictions_ml rt eng habits logs targetDate)
       = map h_id (filter h_isActive habits)
   \<and> mset (predictForDate_ml rt eng habits logs targetDate)
       = mset (activePredictions_ml rt eng habits logs targetDate)
   \<and> ((\<forall>p\<in>set (activePredictions_ml rt eng habits logs targetDate). isFinite (p_probability p))
        \<longrightarrow>
        sorted_wrt (\<lambda>a b. jle (p_probability b) (p_probability a))
          (predictForDate_ml rt eng habits logs targetDate)
        \<and> (\<forall>v. filter (\<lambda>p. p_probability p = v) (predictForDate_ml rt eng habits logs targetDate)
               = filter (\<lambda>p. p_probability p = v)
                   (activePredictions_ml rt eng habits logs targetDate)))"
proof -
  have lib_sorted: "sorted_wrt (\<lambda>a b. jle (p_probability b) (p_probability a))
      (predictForDate rt habits logs targetDate)"
    unfolding predictForDate_def
    by (rule sort_finite_probabilities(1)) (rule activePredictions_finite)
  have lib_stable: "filter (\<lambda>p. p_probability p = v) (predictForDate rt habits logs targetDate)
      = filter (\<lambda>p. p_probability p = v) (activePredictions rt habits logs)" for v
    unfolding predictForDate_def
    by (rule sort_finite_probabilities(2)) (rule activePredictions_finite)
  have ml_sorted: "sorted_wrt (\<lambda>a b. jle (p_probability b) (p_probability a))
      (predictForDate_ml rt eng habits logs targetDate)"
    if "\<forall>p\<in>set (activePredictions_ml rt eng habits logs targetDate). isFinite (p_probability p)"
    unfolding predictForDate_ml_def
    by (rule sort_finite_probabilities(1)) (use that in blast)
  have ml_stable: "filter (\<lambda>p. p_probability p = v) (predictForDate_ml rt eng habits logs targetDate)
      = filter (\<lambda>p. p_probability p = v) (activePredictions_ml rt eng habits logs targetDate)"
    if "\<forall>p\<in>set (activePredictions_ml rt eng habits logs targetDate). isFinite (p_probability p)"
    for v
    unfolding predictForDate_ml_def
    by (rule sort_finite_probabilities(2)) (use that in blast)
  show ?thesis
    using activePredictions_habits [of rt habits logs]
      activePredictions_ml_habits [of rt eng habits logs targetDate]
      lib_sorted lib_stable ml_sorted ml_stable
    by (simp add: predictForDate_def predictForDate_ml_def mset_js_sort)
qed

lemma exampleHabit_fields [simp]:
  "h_id (exampleHabit i) = i" "h_isActive (exampleHabit i)"
  by (simp_all add: exampleHabit_def)

subsection \<open>Learned predictions that are not numbers\<close>


text \<open>No arrangement of two or more predictions is sorted when one probability is NaN.\<close>

lemma not_sorted_with_NaN:
  assumes "p \<in> set ps" and "p_probability p = NaN" and "2 \<le> length ps"
  shows "\<not> sorted_wrt (\<lambda>a b. jle (p_probability b) (p_probability a)) ps"
proof
  assume srt: "sorted_wrt (\<lambda>a b. jle (p_probability b) (p_probability a)) ps"
  obtain i where i: "i < length ps" "ps ! i = p"
    using assms(1) by (auto simp: in_set_conv_nth)
  obtain j where j: "j < length ps" "j \<noteq> i"
    using assms(3) by (cases "i = 0") (auto intro: that [of 0] that [of 1])
  show False
  proof (cases "i < j")
    case True
    then have "jle (p_probability (ps ! j)) (p_probability (ps ! i))"
      using srt j(1) by (simp add: sorted_wrt_iff_nth_less)
    then show False using i(2) assms(2) by simp
  next
    case False
    then have "j < i" using j(2) by simp
    then have "jle (p_probability (ps ! i)) (p_probability (ps ! j))"
      using srt i(1) by (simp add: sorted_wrt_iff_nth_less)
    then show False using i(2) assms(2) by simp
  qed
qed




















section \<open>Classification metrics\<close>

lemmas count_defs = truePositives_def trueNegatives_def falsePositives_def falseNegatives_def

lemma countCases_acc: "countCases P ps as i acc = acc + countCases P ps as i 0"
proof (induction ps arbitrary: i acc)
  case Nil
  then show ?case by simp
next
  case (Cons p ps)
  show ?case
    using Cons [of "i + 1" "acc + (if P p (nth_js as i) then 1 else 0)"]
      Cons [of "i + 1" "0 + (if P p (nth_js as i) then 1 else 0)"]
    by simp
qed

lemma confusion_counts_from:
  assumes "set ps \<subseteq> {Fin 0, Fin 1}"
    and "\<And>k. k < length ps \<Longrightarrow> nth_js as (i + k) \<in> {Fin 0, Fin 1}"
  shows "countCases (\<lambda>pred a. jseq pred (Fin 1) \<and> jseq a (Fin 1)) ps as i 0
       + countCases (\<lambda>pred a. jseq pred (Fin 0) \<and> jseq a (Fin 0)) ps as i 0
       + countCases (\<lambda>pred a. jseq pred (Fin 1) \<and> jseq a (Fin 0)) ps as i 0
       + countCases (\<lambda>pred a. jseq pred (Fin 0) \<and> jseq a (Fin 1)) ps as i 0
       = length ps"
  using assms
proof (induction ps arbitrary: i)
  case Nil
  then show ?case by simp
next
  case (Cons p ps)
  have p: "p = Fin 0 \<or> p = Fin 1" using Cons.prems(1) by auto
  have a: "nth_js as i = Fin 0 \<or> nth_js as i = Fin 1" using Cons.prems(2) [of 0] by auto
  have rest: "nth_js as (i + 1 + k) \<in> {Fin 0, Fin 1}" if "k < length ps" for k
    using Cons.prems(2) [of "Suc k"] that by simp
  have ih: "countCases (\<lambda>pred a. jseq pred (Fin 1) \<and> jseq a (Fin 1)) ps as (i + 1) 0
       + countCases (\<lambda>pred a. jseq pred (Fin 0) \<and> jseq a (Fin 0)) ps as (i + 1) 0
       + countCases (\<lambda>pred a. jseq pred (Fin 1) \<and> jseq a (Fin 0)) ps as (i + 1) 0
       + countCases (\<lambda>pred a. jseq pred (Fin 0) \<and> jseq a (Fin 1)) ps as (i + 1) 0
       = length ps"
    using Cons.IH [of "i + 1"] Cons.prems(1) rest by simp
  show ?case
    using p a ih
    by (auto simp: jseq_def countCases_acc [of _ ps as "Suc i" "Suc 0"])
qed

lemma confusion_counts_sum:
  assumes "length predictions = length actuals"
    and "set predictions \<subseteq> {Fin 0, Fin 1}"
    and "set actuals \<subseteq> {Fin 0, Fin 1}"
  shows "truePositives predictions actuals + trueNegatives predictions actuals
       + falsePositives predictions actuals + falseNegatives predictions actuals
       = length predictions"
proof -
  have "nth_js actuals (0 + k) \<in> {Fin 0, Fin 1}" if "k < length predictions" for k
  proof -
    have "actuals ! k \<in> set actuals" using that assms(1) by simp
    with assms(3) have "actuals ! k \<in> {Fin 0, Fin 1}" by blast
    then show ?thesis using that assms(1) by (simp add: nth_js_def)
  qed
  then show ?thesis
    unfolding truePositives_def trueNegatives_def falsePositives_def falseNegatives_def
    using assms(2) by (intro confusion_counts_from)
qed

lemma metrics_confusionMatrix:
  "m_confusionMatrix (calculateMetrics predictions actuals probabilities)
     = \<lparr> cm_truePositive = truePositives predictions actuals,
         cm_trueNegative = trueNegatives predictions actuals,
         cm_falsePositive = falsePositives predictions actuals,
         cm_falseNegative = falseNegatives predictions actuals \<rparr>"
  by (simp only: calculateMetrics_def Let_def ModelMetrics.select_convs)

lemma metrics_accuracy:
  "m_accuracy (calculateMetrics predictions actuals probabilities)
     = jdiv (Fin (real (truePositives predictions actuals + trueNegatives predictions actuals)))
         (Fin (real (truePositives predictions actuals + trueNegatives predictions actuals
                     + falsePositives predictions actuals + falseNegatives predictions actuals)))"
  by (simp only: calculateMetrics_def Let_def ModelMetrics.select_convs)

lemma metrics_precision:
  "m_precision (calculateMetrics predictions actuals probabilities)
     = jor (jdiv (Fin (real (truePositives predictions actuals)))
              (Fin (real (truePositives predictions actuals + falsePositives predictions actuals))))
         (Fin 0)"
  by (simp only: calculateMetrics_def Let_def ModelMetrics.select_convs)

lemma metrics_recall:
  "m_recall (calculateMetrics predictions actuals probabilities)
     = jor (jdiv (Fin (real (truePositives predictions actuals)))
              (Fin (real (truePositives predictions actuals + falseNegatives predictions actuals))))
         (Fin 0)"
  by (simp only: calculateMetrics_def Let_def ModelMetrics.select_convs)

lemma metrics_f1Score:
  "m_f1Score (calculateMetrics predictions actuals probabilities)
     = jor (jdiv (jmul (Fin 2) (jmul (m_precision (calculateMetrics predictions actuals probabilities))
                                   (m_recall (calculateMetrics predictions actuals probabilities))))
              (jadd (m_precision (calculateMetrics predictions actuals probabilities))
                    (m_recall (calculateMetrics predictions actuals probabilities))))
         (Fin 0)"
  by (simp only: calculateMetrics_def Let_def ModelMetrics.select_convs)

lemma ratio_or_zero:
  fixes a b :: nat
  assumes "a \<le> b"
  shows "jor (jdiv (Fin (real a)) (Fin (real b))) (Fin 0) = Fin (if b = 0 then 0 else real a / real b)"
  using assms by (auto simp: jor_def truthy_def)

lemma nat_ratio_unit:
  fixes a b :: nat
  assumes "a \<le> b" "b \<noteq> 0"
  shows "0 \<le> real a / real b \<and> real a / real b \<le> 1"
  using assms by (simp add: divide_le_eq_1)

lemma ratio_bounds:
  fixes a b :: nat
  assumes "a \<le> b"
  shows "0 \<le> (if b = 0 then 0 else real a / real b)" "(if b = 0 then 0 else real a / real b) \<le> 1"
  using nat_ratio_unit [OF assms] by auto

lemma f1_value:
  assumes "0 \<le> p" "p \<le> 1" "0 \<le> r" "r \<le> 1"
  shows "jor (jdiv (jmul (Fin 2) (jmul (Fin p) (Fin r))) (jadd (Fin p) (Fin r))) (Fin 0)
         = Fin (if p + r = 0 then 0 else 2 * (p * r) / (p + r))"
  using assms by (auto simp: jor_def truthy_def)

lemma f1_bounds:
  fixes p r :: real
  assumes "0 \<le> p" "p \<le> 1" "0 \<le> r" "r \<le> 1"
  shows "0 \<le> (if p + r = 0 then 0 else 2 * (p * r) / (p + r))"
    and "(if p + r = 0 then 0 else 2 * (p * r) / (p + r)) \<le> 1"
proof -
  show "0 \<le> (if p + r = 0 then 0 else 2 * (p * r) / (p + r))"
    using assms by auto
  have "p * r \<le> p" "p * r \<le> r"
    using assms by (simp_all add: mult_left_le mult_right_le_one_le mult_left_le_one_le)
  then have "2 * (p * r) \<le> p + r" by linarith
  then show "(if p + r = 0 then 0 else 2 * (p * r) / (p + r)) \<le> 1"
    using assms by (auto simp: divide_le_eq)
qed

text \<open>
  Claim C5, as amended. For predictions and actuals of equal length with entries 0 and 1
  (and any probabilities), the four counts of the confusion matrix add up to the length;
  the accuracy is a number between 0 and 1 when the arrays are not empty, and NaN when they
  are empty (0 / 0 without a guard); precision, recall and F1 are numbers between 0 and 1,
  and each is 0 when its denominator is 0.
\<close>

theorem C5_calculateMetrics_counts_and_ranges:
  assumes len: "length predictions = length actuals"
    and preds: "set predictions \<subseteq> {Fin 0, Fin 1}"
    and acts: "set actuals \<subseteq> {Fin 0, Fin 1}"
  shows "cm_truePositive (m_confusionMatrix (calculateMetrics predictions actuals probabilities))
       + cm_trueNegative (m_confusionMatrix (calculateMetrics predictions actuals probabilities))
       + cm_falsePositive (m_confusionMatrix (calculateMetrics predictions actuals probabilities))
       + cm_falseNegative (m_confusionMatrix (calculateMetrics predictions actuals probabilities))
       = length predictions
     \<and> (if predictions = []
        then m_accuracy (calculateMetrics predictions actuals probabilities) = NaN
        else \<exists>a. m_accuracy (calculateMetrics predictions actuals probabilities) = Fin a \<and> 0 \<le> a \<and> a \<le> 1)
     \<and> (\<exists>p. m_precision (calculateMetrics predictions actuals probabilities) = Fin p \<and> 0 \<le> p \<and> p \<le> 1)
     \<and> (\<exists>r. m_recall (calculateMetrics predictions actuals probabilities) = Fin r \<and> 0 \<le> r \<and> r \<le> 1)
     \<and> (\<exists>f. m_f1Score (calculateMetrics predictions actuals probabilities) = Fin f \<and> 0 \<le> f \<and> f \<le> 1)
     \<and> (truePositives predictions actuals + falsePositives predictions actuals = 0
        \<longrightarrow> m_precision (calculateMetrics predictions actuals probabilities) = Fin 0)
     \<and> (truePositives predictions actuals + falseNegatives predictions actuals = 0
        \<longrightarrow> m_recall (calculateMetrics predictions actuals probabilities) = Fin 0)
     \<and> (jadd (m_precision (calculateMetrics predictions actuals probabilities))
              (m_recall (calculateMetrics predictions actuals probabilities)) = Fin 0
        \<longrightarrow> m_f1Score (calculateMetrics predictions actuals probabilities) = Fin 0)"
proof -
  let ?m = "calculateMetrics predictions actuals probabilities"
  define tp where "tp = truePositives predictions actuals"
  define tn where "tn = trueNegatives predictions actuals"
  define fp where "fp = falsePositives predictions actuals"
  define fn where "fn = falseNegatives predictions actuals"
  define p where "p = (if tp + fp = 0 then 0 else real tp / real (tp + fp))"
  define r where "r = (if tp + fn = 0 then 0 else real tp / real (tp + fn))"
  have total: "tp + tn + fp + fn = length predictions"
    unfolding tp_def tn_def fp_def fn_def by (rule confusion_counts_sum [OF len preds acts])
  have acc: "m_accuracy ?m = jdiv (Fin (real (tp + tn))) (Fin (real (tp + tn + fp + fn)))"
    unfolding tp_def tn_def fp_def fn_def by (rule metrics_accuracy)
  have prec: "m_precision ?m = Fin p"
    using ratio_or_zero [of tp "tp + fp"]
    by (simp add: metrics_precision tp_def fp_def p_def)
  have rec: "m_recall ?m = Fin r"
    using ratio_or_zero [of tp "tp + fn"]
    by (simp add: metrics_recall tp_def fn_def r_def)
  have pb: "0 \<le> p" "p \<le> 1" using ratio_bounds [of tp "tp + fp"] by (simp_all add: p_def)
  have rb: "0 \<le> r" "r \<le> 1" using ratio_bounds [of tp "tp + fn"] by (simp_all add: r_def)
  have f1: "m_f1Score ?m = Fin (if p + r = 0 then 0 else 2 * (p * r) / (p + r))"
    using f1_value [OF pb rb] by (simp only: metrics_f1Score prec rec)
  have c1: "cm_truePositive (m_confusionMatrix ?m) + cm_trueNegative (m_confusionMatrix ?m)
       + cm_falsePositive (m_confusionMatrix ?m) + cm_falseNegative (m_confusionMatrix ?m)
       = length predictions"
    using total by (simp add: metrics_confusionMatrix tp_def tn_def fp_def fn_def)
  have c2: "if predictions = [] then m_accuracy ?m = NaN
        else \<exists>a. m_accuracy ?m = Fin a \<and> 0 \<le> a \<and> a \<le> 1"
  proof (cases "predictions = []")
    case True
    then have "tp + tn + fp + fn = 0" using total by simp
    then have "m_accuracy ?m = NaN" unfolding acc by simp
    then show ?thesis using True by simp
  next
    case False
    then have pos: "tp + tn + fp + fn \<noteq> 0" using total by simp
    then have "real (tp + tn + fp + fn) \<noteq> 0" by (simp only: of_nat_eq_0_iff not_False_eq_True)
    then have "m_accuracy ?m = Fin (real (tp + tn) / real (tp + tn + fp + fn))"
      unfolding acc by (simp only: jdiv.simps if_False)
    moreover have "0 \<le> real (tp + tn) / real (tp + tn + fp + fn)
        \<and> real (tp + tn) / real (tp + tn + fp + fn) \<le> 1"
      by (rule nat_ratio_unit [OF _ pos]) simp
    ultimately show ?thesis using False by (simp only: if_False) blast
  qed
  have c3: "\<exists>p. m_precision ?m = Fin p \<and> 0 \<le> p \<and> p \<le> 1"
    using prec pb by blast
  have c4: "\<exists>r. m_recall ?m = Fin r \<and> 0 \<le> r \<and> r \<le> 1"
    using rec rb by blast
  have c5: "\<exists>f. m_f1Score ?m = Fin f \<and> 0 \<le> f \<and> f \<le> 1"
    using f1 f1_bounds [OF pb rb] by blast
  have c6: "truePositives predictions actuals + falsePositives predictions actuals = 0
        \<longrightarrow> m_precision ?m = Fin 0"
    by (simp add: prec p_def tp_def fp_def)
  have c7: "truePositives predictions actuals + falseNegatives predictions actuals = 0
        \<longrightarrow> m_recall ?m = Fin 0"
    by (simp add: rec r_def tp_def fn_def)
  have c8: "jadd (m_precision ?m) (m_recall ?m) = Fin 0 \<longrightarrow> m_f1Score ?m = Fin 0"
    by (simp add: prec rec f1)
  show ?thesis using c1 c2 c3 c4 c5 c6 c7 c8 by blast
qed

text \<open>The predictions and actuals of the test of the repository.\<close>

theorem C5_calculateMetrics_counts_and_ranges_witness:
  "length [Fin 1, Fin 1, Fin 0, Fin 0, Fin 1, Fin 0]
     = length [Fin 1, Fin 0, Fin 0, Fin 1, Fin 1, Fin 0]
   \<and> set [Fin 1, Fin 1, Fin 0, Fin 0, Fin 1, Fin 0] \<subseteq> {Fin 0, Fin 1}
   \<and> set [Fin 1, Fin 0, Fin 0, Fin 1, Fin 1, Fin 0] \<subseteq> {Fin 0, Fin 1}
   \<and> m_confusionMatrix (calculateMetrics [Fin 1, Fin 1, Fin 0, Fin 0, Fin 1, Fin 0]
         [Fin 1, Fin 0, Fin 0, Fin 1, Fin 1, Fin 0] [])
       = \<lparr> cm_truePositive = 2, cm_trueNegative = 2, cm_falsePositive = 1,
           cm_falseNegative = 1 \<rparr>
   \<and> m_accuracy (calculateMetrics [Fin 1, Fin 1, Fin 0, Fin 0, Fin 1, Fin 0]
         [Fin 1, Fin 0, Fin 0, Fin 1, Fin 1, Fin 0] []) = Fin (2 / 3)
   \<and> m_precision (calculateMetrics [Fin 1, Fin 1, Fin 0, Fin 0, Fin 1, Fin 0]
         [Fin 1, Fin 0, Fin 0, Fin 1, Fin 1, Fin 0] []) = Fin (2 / 3)"
  using C5_calculateMetrics_counts_and_ranges
    [of "[Fin 1, Fin 1, Fin 0, Fin 0, Fin 1, Fin 0]" "[Fin 1, Fin 0, Fin 0, Fin 1, Fin 1, Fin 0]" "[]"]
  by (simp add: metrics_confusionMatrix metrics_accuracy metrics_precision count_defs
      nth_js_def jseq_def jor_def truthy_def)

text \<open>
  The claim as it was stated fails for empty arrays, which have equal length and no entry
  outside 0 and 1: the accuracy is NaN.
\<close>

theorem C5_empty_input_accuracy_counterexample:
  "m_accuracy (calculateMetrics [] [] []) = NaN"
  by (simp add: metrics_accuracy count_defs)

section \<open>Rounding to a double\<close>

lemma ulpExponent_eq:
  assumes "2 powi (e + 52) \<le> \<bar>x\<bar>" and "\<bar>x\<bar> < 2 powi (e + 53)" and "- 1074 \<le> e"
  shows "ulpExponent x = e"
proof -
  have pos: "0 < \<bar>x\<bar>"
    using assms(1) by (smt (verit) zero_less_power_int)
  have p1: "(2::real) powr real_of_int (e + 52) = 2 powi (e + 52)"
    by (rule powr_real_of_int') simp_all
  have p2: "(2::real) powr real_of_int (e + 52 + 1) = 2 powi (e + 53)"
    using powr_real_of_int' [of "2::real" "e + 53"] by (simp add: add.commute)
  from pos have iff: "(\<lfloor>log 2 \<bar>x\<bar>\<rfloor> = e + 52)
      = (2 powr real_of_int (e + 52) \<le> \<bar>x\<bar> \<and> \<bar>x\<bar> < 2 powr real_of_int (e + 52 + 1))"
    by (rule floor_log_eq_powr_iff) simp
  have "\<lfloor>log 2 \<bar>x\<bar>\<rfloor> = e + 52"
    unfolding iff p1 p2 using assms(1,2) by (rule conjI)
  then show ?thesis
    using assms(3) by (simp add: ulpExponent_def)
qed

lemma fl_eval:
  assumes "2 powi (e + 52) \<le> \<bar>x\<bar>" and "\<bar>x\<bar> < 2 powi (e + 53)" and "- 1074 \<le> e"
    and "roundEven (x / 2 powi e) = m" and "\<bar>of_int m * 2 powi e\<bar> < (2::real) ^ 1024"
  shows "fl x = Fin (of_int m * 2 powi e)"
proof -
  have "x \<noteq> 0" using assms(1) by (smt (verit) zero_less_power_int abs_zero)
  then show ?thesis
    using assms(4,5) by (simp add: fl_def ulpExponent_eq [OF assms(1-3)] Let_def)
qed

lemma roundEven_of_int [simp]: "roundEven (of_int z) = z"
  by (simp add: roundEven_def)

lemma roundEven_bounds: "\<lfloor>q\<rfloor> \<le> roundEven q" "roundEven q \<le> \<lceil>q\<rceil>"
  by (auto simp: roundEven_def Let_def ceiling_altdef)

lemma roundEven_abs_le:
  assumes "\<bar>q\<bar> \<le> of_int N"
  shows "\<bar>roundEven q\<bar> \<le> N"
proof -
  have "- N \<le> \<lfloor>q\<rfloor>" using assms by (simp add: le_floor_iff abs_le_iff)
  moreover have "\<lceil>q\<rceil> \<le> N" using assms by (simp add: ceiling_le_iff abs_le_iff)
  ultimately show ?thesis
    using roundEven_bounds [of q] by linarith
qed

lemma roundEven_eq:
  assumes "of_int m - 1 / 2 < q" and "q < of_int m + 1 / 2"
  shows "roundEven q = m"
proof -
  have "\<lfloor>q\<rfloor> = m \<or> \<lfloor>q\<rfloor> = m - 1"
    using assms by linarith
  then show ?thesis
  proof
    assume "\<lfloor>q\<rfloor> = m"
    then show ?thesis using assms by (simp add: roundEven_def Let_def)
  next
    assume f: "\<lfloor>q\<rfloor> = m - 1"
    then show ?thesis using assms by (simp add: roundEven_def Let_def)
  qed
qed

lemma ulpExponent_ge: "- 1074 \<le> ulpExponent x"
  by (simp add: ulpExponent_def)

lemma ulpExponent_le:
  assumes "x \<noteq> 0" and "\<bar>x\<bar> < 2 powi (K + 53)" and "- 1074 \<le> K"
  shows "ulpExponent x \<le> K"
proof -
  have "(2::real) powr real_of_int (K + 53) = 2 powi (K + 53)"
    by (rule powr_real_of_int') simp_all
  then have "log 2 \<bar>x\<bar> < real_of_int (K + 53)"
    using assms(1,2) by (subst log_less_iff) simp_all
  then have "\<lfloor>log 2 \<bar>x\<bar>\<rfloor> < K + 53"
    by (simp only: floor_less_iff)
  then show ?thesis
    using assms(3) by (simp add: ulpExponent_def)
qed


lemma fl_zero [simp]: "fl 0 = Fin 0"
  by (simp add: fl_def)

text \<open>
  Rounding does not cross a number \<open>j * 2 ^ K\<close> with \<open>j\<close> below \<open>2 ^ 53\<close>, which is itself a
  double.
\<close>

lemma fl_bound:
  assumes le: "\<bar>x\<bar> \<le> real j * 2 ^ K" and j: "j < 2 ^ 53" and fin: "real j * 2 ^ K < 2 ^ 1024"
  shows "\<exists>y. fl x = Fin y \<and> \<bar>y\<bar> \<le> real j * 2 ^ K"
proof (cases "x = 0")
  case True
  then show ?thesis by simp
next
  case False
  define e where "e = ulpExponent x"
  have "real j < 2 ^ 53" using j by (metis of_nat_less_iff of_nat_numeral of_nat_power)
  then have "real j * 2 ^ K < 2 ^ 53 * 2 ^ K" by simp
  also have "\<dots> = 2 powi (int K + 53)"
    by (simp add: power_int_add)
  finally have "\<bar>x\<bar> < 2 powi (int K + 53)" using le by simp
  then have eK: "e \<le> int K"
    unfolding e_def using False by (intro ulpExponent_le) simp_all
  define d where "d = nat (int K - e)"
  have K: "int K = e + int d" using eK by (simp add: d_def)
  have pw: "(2::real) ^ K = 2 powi e * 2 ^ d"
  proof -
    have "(2::real) ^ K = 2 powi (int K)" by simp
    also have "\<dots> = 2 powi e * 2 powi (int d)" unfolding K by (simp add: power_int_add)
    finally show ?thesis by simp
  qed
  have pos: "(0::real) < 2 powi e" by simp
  have "\<bar>x / 2 powi e\<bar> = \<bar>x\<bar> / 2 powi e" by simp
  also have "\<dots> \<le> (real j * 2 ^ K) / 2 powi e"
    using le pos by (simp add: divide_right_mono)
  also have "\<dots> = real_of_int (int (j * 2 ^ d))"
    unfolding pw using pos by simp
  finally have "\<bar>roundEven (x / 2 powi e)\<bar> \<le> int (j * 2 ^ d)"
    by (rule roundEven_abs_le)
  then have "\<bar>real_of_int (roundEven (x / 2 powi e))\<bar> \<le> real (j * 2 ^ d)"
    by (metis of_int_abs of_int_le_iff of_int_of_nat_eq)
  then have "\<bar>real_of_int (roundEven (x / 2 powi e))\<bar> * 2 powi e \<le> real (j * 2 ^ d) * 2 powi e"
    using pos by (simp add: mult_right_mono)
  also have "\<dots> = real j * 2 ^ K" unfolding pw by simp
  finally have y: "\<bar>real_of_int (roundEven (x / 2 powi e)) * 2 powi e\<bar> \<le> real j * 2 ^ K"
    by (simp add: abs_mult)
  then have "fl x = Fin (real_of_int (roundEven (x / 2 powi e)) * 2 powi e)"
    using False fin by (simp add: fl_def Let_def e_def [symmetric])
  then show ?thesis using y by blast
qed

lemma fl_of_int:
  assumes "\<bar>z\<bar> < 2 ^ 53"
  shows "fl (of_int z) = Fin (of_int z)"
proof (cases "z = 0")
  case True
  then show ?thesis by simp
next
  case False
  define e where "e = ulpExponent (of_int z)"
  have "\<bar>real_of_int z\<bar> < 2 ^ 53" using assms by (metis of_int_abs of_int_less_iff of_int_numeral of_int_power)
  then have e0: "e \<le> 0"
    unfolding e_def using False by (intro ulpExponent_le) simp_all
  define d where "d = nat (- e)"
  have e: "e = - int d" using e0 by (simp add: d_def)
  have q: "real_of_int z / 2 powi e = real_of_int (z * 2 ^ d)"
    unfolding e by (simp add: power_int_minus field_simps)
  have "real_of_int (roundEven (real_of_int z / 2 powi e)) * 2 powi e = real_of_int z"
    unfolding q roundEven_of_int unfolding e by (simp add: power_int_minus)
  moreover have "\<bar>real_of_int z\<bar> < 2 ^ 1024"
  proof -
    have "\<bar>real_of_int z\<bar> < 2 ^ 53" by fact
    also have "\<dots> \<le> (2::real) ^ 1024" by (rule power_increasing) simp_all
    finally show ?thesis .
  qed
  ultimately show ?thesis
    using False by (simp add: fl_def Let_def e_def [symmetric])
qed

lemma fl_sqrt_eval:
  assumes "(2 powi (e + 52))\<^sup>2 \<le> r" and "r < (2 powi (e + 53))\<^sup>2" and "- 1074 \<le> e"
    and "0 < m" and "((of_int m - 1 / 2) * 2 powi e)\<^sup>2 < r"
    and "r < ((of_int m + 1 / 2) * 2 powi e)\<^sup>2"
    and "\<bar>of_int m * 2 powi e\<bar> < (2::real) ^ 1024"
  shows "fl (sqrt r) = Fin (of_int m * 2 powi e)"
proof (rule fl_eval)
  have pos: "(0::real) < 2 powi e" by simp
  have r0: "0 \<le> r" using assms(1) by (smt (verit) zero_le_power2)
  have "2 powi (e + 52) \<le> sqrt r"
    using assms(1) by (rule real_le_rsqrt)
  then show "2 powi (e + 52) \<le> \<bar>sqrt r\<bar>" by simp
  have "sqrt r < 2 powi (e + 53)"
    using assms(2) by (intro real_less_lsqrt) simp_all
  then show "\<bar>sqrt r\<bar> < 2 powi (e + 53)" using r0 by simp
  show "- 1074 \<le> e" by fact
  have "(of_int m - 1 / 2) * 2 powi e < sqrt r"
    using assms(5) by (rule real_less_rsqrt)
  then have lo: "of_int m - 1 / 2 < sqrt r / 2 powi e"
    using pos by (simp add: pos_less_divide_eq)
  have "0 \<le> (real_of_int m + 1 / 2) * 2 powi e"
    using assms(4) by simp
  then have "sqrt r < (of_int m + 1 / 2) * 2 powi e"
    using assms(6) by (intro real_less_lsqrt) simp_all
  then have hi: "sqrt r / 2 powi e < of_int m + 1 / 2"
    using pos by (simp add: pos_divide_less_eq)
  show "roundEven (sqrt r / 2 powi e) = m"
    using lo hi by (rule roundEven_eq)
  show "\<bar>of_int m * 2 powi e\<bar> < (2::real) ^ 1024" by fact
qed

section \<open>Degenerate input of the evaluation primitives\<close>

lemma countLabel_same:
  "foldl (\<lambda>acc label. countLabel label acc) [(c, k)] (replicate n c) = [(c, k + n)]"
  by (induction n arbitrary: k) simp_all

lemma all_same_replicate:
  assumes "\<forall>l\<in>set labels. l = c"
  shows "labels = replicate (length labels) c"
  using assms by (induction labels) auto

lemma gini_single_class:
  assumes "labels \<noteq> []" and "\<forall>l\<in>set labels. l = c"
  shows "calculateGini labels = Fin 0"
proof -
  obtain n where n: "labels = replicate (Suc n) c"
    using assms all_same_replicate [of labels c] by (cases labels) auto
  have counts: "foldl (\<lambda>acc label. countLabel label acc) [] (replicate (Suc n) c) = [(c, Suc n)]"
    using countLabel_same [of c 1 n] by simp
  show ?thesis
    unfolding n calculateGini_def Let_def counts by (simp add: jsub_def)
qed

lemma roc_single_class:
  assumes "(\<forall>a\<in>set actuals. jseq a (Fin 1)) \<or> (\<forall>a\<in>set actuals. \<not> jseq a (Fin 1))"
  shows "calculateROCAUC actuals probabilities = Fin 0.5"
proof -
  have "length (filter (\<lambda>a. jseq a (Fin 1)) actuals) = 0
      \<or> length actuals - length (filter (\<lambda>a. jseq a (Fin 1)) actuals) = 0"
    using assms by (auto simp: filter_empty_conv)
  then show ?thesis
    by (auto simp: calculateROCAUC_def Let_def)
qed

lemma dop_Fin:
  "dadd (Fin a) (Fin b) = fl (a + b)"
  "dsub (Fin a) (Fin b) = fl (a - b)"
  "dmul (Fin a) (Fin b) = fl (a * b)"
  "b \<noteq> 0 \<Longrightarrow> ddiv (Fin a) (Fin b) = fl (a / b)"
  "0 \<le> a \<Longrightarrow> dsqrt (Fin a) = fl (sqrt a)"
  by (simp_all add: dadd_def dsub_def dmul_def ddiv_def dsqrt_def)

lemma dmul_commute: "dmul a b = dmul b a"
  by (cases a; cases b) (simp_all add: dmul_def mult.commute)

lemma correlationStep_swap:
  "correlationStep y x meanY meanX (a, c, b) i
     = (case correlationStep x y meanX meanY (a, b, c) i of (a', b', c') \<Rightarrow> (a', c', b'))"
  by (simp add: correlationStep_def Let_def dmul_commute)

lemma correlation_loop_swap:
  "foldl (correlationStep y x meanY meanX) (a, c, b) js
     = (case foldl (correlationStep x y meanX meanY) (a, b, c) js of (a', b', c') \<Rightarrow> (a', c', b'))"
proof (induction js arbitrary: a b c)
  case Nil
  then show ?case by simp
next
  case (Cons i js)
  obtain a' b' c' where st: "correlationStep x y meanX meanY (a, b, c) i = (a', b', c')"
    by (cases "correlationStep x y meanX meanY (a, b, c) i") auto
  show ?case
    using Cons [of a' c' b'] by (simp add: correlationStep_swap [of y x meanY meanX a c b i] st)
qed

lemma calculateCorrelation_commute:
  assumes "length x = length y"
  shows "calculateCorrelation x y = calculateCorrelation y x"
proof -
  obtain a b c where st:
    "foldl (correlationStep x y (ddiv (foldl dadd (Fin 0) x) (Fin (real (length y))))
              (ddiv (foldl dadd (Fin 0) y) (Fin (real (length y)))))
       (Fin 0, Fin 0, Fin 0) [0..<length y] = (a, b, c)"
    using prod_cases3 by blast
  show ?thesis
    using correlation_loop_swap
      [of y x "ddiv (foldl dadd (Fin 0) y) (Fin (real (length y)))"
          "ddiv (foldl dadd (Fin 0) x) (Fin (real (length y)))" "Fin 0" "Fin 0" "Fin 0"
          "[0..<length y]"]
    by (simp add: calculateCorrelation_def Let_def assms st dmul_commute [of b c])
qed

text \<open>The sum of whole numbers that are all the same is exact while it stays below \<open>2 ^ 53\<close>.\<close>

lemma sum_constant:
  assumes "\<forall>v\<in>set xs. v = real_of_int k" and "int (j + length xs) * \<bar>k\<bar> < 2 ^ 53"
  shows "foldl dadd (Fin (real_of_int (int j * k))) (map Fin xs)
       = Fin (real_of_int (int (j + length xs) * k))"
  using assms
proof (induction xs arbitrary: j)
  case Nil
  then show ?case by simp
next
  case (Cons v xs)
  have v: "v = real_of_int k" using Cons.prems(1) by simp
  have "int (Suc j) * \<bar>k\<bar> \<le> int (j + length (v # xs)) * \<bar>k\<bar>"
    by (intro mult_right_mono) simp_all
  then have "\<bar>int (Suc j) * k\<bar> < 2 ^ 53"
    using Cons.prems(2) by (simp add: abs_mult)
  then have "fl (real_of_int (int (Suc j) * k)) = Fin (real_of_int (int (Suc j) * k))"
    by (rule fl_of_int)
  moreover have "real_of_int (int j * k) + real_of_int k = real_of_int (int (Suc j) * k)"
    by (simp add: algebra_simps)
  ultimately have step: "dadd (Fin (real_of_int (int j * k))) (Fin v) = Fin (real_of_int (int (Suc j) * k))"
    by (simp add: v dop_Fin)
  have "foldl dadd (Fin (real_of_int (int (Suc j) * k))) (map Fin xs)
      = Fin (real_of_int (int (Suc j + length xs) * k))"
    using Cons.prems by (intro Cons.IH) simp_all
  then show ?case
    by (simp only: list.map foldl_Cons step) simp
qed

text \<open>A sum of numbers of bounded magnitude does not overflow.\<close>

lemma sum_bounded:
  assumes "\<forall>v\<in>set ys. \<bar>v\<bar> \<le> 2 ^ K" and "\<bar>s\<bar> \<le> real j * 2 ^ K"
    and "j + length ys < 2 ^ 53" and "real (j + length ys) * 2 ^ K < 2 ^ 1024"
  shows "\<exists>t. foldl dadd (Fin s) (map Fin ys) = Fin t \<and> \<bar>t\<bar> \<le> real (j + length ys) * 2 ^ K"
  using assms
proof (induction ys arbitrary: s j)
  case Nil
  then show ?case by simp
next
  case (Cons v ys)
  have "\<bar>s + v\<bar> \<le> real (Suc j) * 2 ^ K"
    using Cons.prems(1,2) by (simp add: algebra_simps) (smt (verit))
  moreover have "Suc j < 2 ^ 53" using Cons.prems(3) by simp
  moreover have "real (Suc j) * 2 ^ K < 2 ^ 1024"
  proof -
    have "real (Suc j) * 2 ^ K \<le> real (j + length (v # ys)) * 2 ^ K"
      by (intro mult_right_mono) simp_all
    then show ?thesis using Cons.prems(4) by linarith
  qed
  ultimately obtain u where u: "fl (s + v) = Fin u" "\<bar>u\<bar> \<le> real (Suc j) * 2 ^ K"
    using fl_bound [of "s + v" "Suc j" K] by blast
  have "\<exists>t. foldl dadd (Fin u) (map Fin ys) = Fin t \<and> \<bar>t\<bar> \<le> real (Suc j + length ys) * 2 ^ K"
    using Cons.prems u(2) by (intro Cons.IH) simp_all
  then show ?case
    by (simp add: u(1) dop_Fin)
qed


text \<open>
  The loop when every entry of the first array equals the mean that was computed for it: the
  numerator and the first sum of squares stay 0, and the second sum of squares stays finite.
\<close>

lemma loop_zero_deviation:
  assumes "\<forall>i\<in>set js. i < length xs \<and> i < length ys"
    and "\<forall>v\<in>set xs. v = c" and "\<forall>v\<in>set ys. \<bar>v\<bar> \<le> 2 ^ K" and "\<bar>my\<bar> \<le> 2 ^ K"
    and "\<bar>d\<bar> \<le> real j * 2 ^ (2 * K + 2)" and "j + length js < 2 ^ 53"
    and "real (j + length js) * 2 ^ (2 * K + 2) < 2 ^ 1024"
  shows "\<exists>t. foldl (correlationStep (map Fin xs) (map Fin ys) (Fin c) (Fin my))
               (Fin 0, Fin 0, Fin d) js = (Fin 0, Fin 0, Fin t)
             \<and> \<bar>t\<bar> \<le> real (j + length js) * 2 ^ (2 * K + 2)"
  using assms
proof (induction js arbitrary: d j)
  case Nil
  then show ?case by simp
next
  case (Cons i js)
  have i: "i < length xs" "i < length ys" using Cons.prems(1) by simp_all
  have xi: "xs ! i = c" using Cons.prems(2) i(1) by simp
  have yi: "\<bar>ys ! i\<bar> \<le> 2 ^ K" using Cons.prems(3) i(2) by simp
  have one: "(1::real) * 2 ^ (2 * K + 2) \<le> real (j + length (i # js)) * 2 ^ (2 * K + 2)"
    by (intro mult_right_mono) simp_all
  have big: "(2::real) ^ (2 * K + 2) < 2 ^ 1024"
    using one Cons.prems(7) by linarith
  have "(2::real) ^ (K + 1) \<le> 2 ^ (2 * K + 2)"
    by (rule power_increasing) simp_all
  then have small: "real 1 * 2 ^ (K + 1) < 2 ^ 1024"
    using big by simp
  have "\<bar>ys ! i - my\<bar> \<le> real 1 * 2 ^ (K + 1)"
    using yi Cons.prems(4) by simp
  then obtain dy where dy: "fl (ys ! i - my) = Fin dy" "\<bar>dy\<bar> \<le> 2 ^ (K + 1)"
    using fl_bound [of "ys ! i - my" 1 "K + 1"] small by auto
  have "\<bar>dy * dy\<bar> \<le> 2 ^ (K + 1) * 2 ^ (K + 1)"
    unfolding abs_mult using dy(2) by (intro mult_mono) simp_all
  also have "\<dots> = real 1 * 2 ^ (2 * K + 2)"
  proof -
    have "2 * K + 2 = (K + 1) + (K + 1)" by simp
    then have "(2::real) ^ (2 * K + 2) = 2 ^ (K + 1) * 2 ^ (K + 1)"
      by (simp only: power_add)
    then show ?thesis by simp
  qed
  finally obtain q where q: "fl (dy * dy) = Fin q" "\<bar>q\<bar> \<le> 2 ^ (2 * K + 2)"
    using fl_bound [of "dy * dy" 1 "2 * K + 2"] big by auto
  have "\<bar>d + q\<bar> \<le> real (Suc j) * 2 ^ (2 * K + 2)"
    using Cons.prems(5) q(2) by (simp add: algebra_simps)
  moreover have "Suc j < 2 ^ 53" using Cons.prems(6) by simp
  moreover have "real (Suc j) * 2 ^ (2 * K + 2) < 2 ^ 1024"
  proof -
    have "real (Suc j) * 2 ^ (2 * K + 2) \<le> real (j + length (i # js)) * 2 ^ (2 * K + 2)"
      by (intro mult_right_mono) simp_all
    then show ?thesis using Cons.prems(7) by linarith
  qed
  ultimately obtain u where u: "fl (d + q) = Fin u" "\<bar>u\<bar> \<le> real (Suc j) * 2 ^ (2 * K + 2)"
    using fl_bound [of "d + q" "Suc j" "2 * K + 2"] by blast
  have step: "correlationStep (map Fin xs) (map Fin ys) (Fin c) (Fin my) (Fin 0, Fin 0, Fin d) i
      = (Fin 0, Fin 0, Fin u)"
    using i by (simp add: correlationStep_def Let_def nth_js_def dop_Fin xi dy(1) q(1) u(1))
  have "\<exists>t. foldl (correlationStep (map Fin xs) (map Fin ys) (Fin c) (Fin my))
               (Fin 0, Fin 0, Fin u) js = (Fin 0, Fin 0, Fin t)
             \<and> \<bar>t\<bar> \<le> real (Suc j + length js) * 2 ^ (2 * K + 2)"
    using Cons.prems u(2) by (intro Cons.IH) simp_all
  then show ?case
    by (simp only: foldl_Cons step) simp
qed

lemma correlation_constant_first:
  assumes len: "length xs = length ys" and n: "length xs < 2 ^ 32" and k: "\<bar>k\<bar> \<le> 2 ^ 20"
    and xs: "\<forall>v\<in>set xs. v = real_of_int k" and ys: "\<forall>v\<in>set ys. \<bar>v\<bar> \<le> 2 ^ 480"
  shows "calculateCorrelation (map Fin xs) (map Fin ys) = Fin 0"
proof (cases "xs = []")
  case True
  then show ?thesis by (simp add: calculateCorrelation_def)
next
  case False
  define n where "n = length xs"
  have n0: "0 < n" and n32: "n < 2 ^ 32" and ny: "length ys = n"
    using False assms(1,2) by (auto simp: n_def)
  have rn: "real n < 2 ^ 32"
    using n32 by (metis of_nat_less_iff of_nat_numeral of_nat_power)
  have n53: "n < 2 ^ 53"
  proof -
    have "(2::nat) ^ 32 \<le> 2 ^ 53" by (rule power_increasing) simp_all
    then show ?thesis using n32 by linarith
  qed
  have fin: "real n * 2 ^ K < 2 ^ 1024" if "K \<le> 992" for K
  proof -
    have "real n * 2 ^ K < 2 ^ 32 * 2 ^ K" using rn by simp
    also have "\<dots> = (2::real) ^ (32 + K)" by (simp add: power_add)
    also have "\<dots> \<le> 2 ^ 1024" using that by (intro power_increasing) simp_all
    finally show ?thesis .
  qed
  have "int n * \<bar>k\<bar> \<le> 2 ^ 32 * 2 ^ 20"
    using n32 k by (intro mult_mono) simp_all
  also have "\<dots> < (2::int) ^ 53" by simp
  finally have "int (0 + length xs) * \<bar>k\<bar> < 2 ^ 53" by (simp add: n_def)
  then have "foldl dadd (Fin (real_of_int (int 0 * k))) (map Fin xs)
      = Fin (real_of_int (int (0 + length xs) * k))"
    using xs by (intro sum_constant) simp_all
  then have sumX: "foldl dadd (Fin 0) (map Fin xs) = Fin (real n * real_of_int k)"
    by (simp add: n_def)
  have "\<bar>k\<bar> < 2 ^ 53"
  proof -
    have "(2::int) ^ 20 < 2 ^ 53" by simp
    then show ?thesis using k by linarith
  qed
  then have meanX: "ddiv (foldl dadd (Fin 0) (map Fin xs)) (Fin (real n)) = Fin (real_of_int k)"
    using n0 by (simp add: sumX dop_Fin fl_of_int)
  have "\<exists>t. foldl dadd (Fin 0) (map Fin ys) = Fin t \<and> \<bar>t\<bar> \<le> real (0 + length ys) * 2 ^ 480"
    using ys n53 fin [of 480] by (intro sum_bounded) (simp_all add: ny)
  then obtain t where t: "foldl dadd (Fin 0) (map Fin ys) = Fin t" "\<bar>t\<bar> \<le> real n * 2 ^ 480"
    by (auto simp: ny)
  have "\<bar>t / real n\<bar> \<le> real 1 * 2 ^ 480"
    using t(2) n0 by (simp add: field_simps)
  moreover have "real 1 * 2 ^ 480 < (2::real) ^ 1024"
    by simp
  ultimately obtain my where my: "fl (t / real n) = Fin my" "\<bar>my\<bar> \<le> 2 ^ 480"
    using fl_bound [of "t / real n" 1 480] by auto
  have meanY: "ddiv (foldl dadd (Fin 0) (map Fin ys)) (Fin (real n)) = Fin my"
    using n0 by (simp add: t(1) dop_Fin my(1))
  have "\<exists>u. foldl (correlationStep (map Fin xs) (map Fin ys) (Fin (real_of_int k)) (Fin my))
               (Fin 0, Fin 0, Fin 0) [0..<n] = (Fin 0, Fin 0, Fin u)
             \<and> \<bar>u\<bar> \<le> real (0 + length [0..<n]) * 2 ^ (2 * 480 + 2)"
    using xs ys my(2) n53 fin [of 962]
    by (intro loop_zero_deviation) (simp_all add: ny n_def [symmetric])
  then obtain u where loop:
    "foldl (correlationStep (map Fin xs) (map Fin ys) (Fin (real_of_int k)) (Fin my))
       (Fin 0, Fin 0, Fin 0) [0..<n] = (Fin 0, Fin 0, Fin u)"
    by blast
  show ?thesis
    using n0
    by (simp add: calculateCorrelation_def Let_def n_def [symmetric] meanX meanY loop dop_Fin jseq_def)
qed

lemma correlation_constant_side:
  assumes "length xs = length ys" and "length xs < 2 ^ 32" and "\<bar>k\<bar> \<le> 2 ^ 20"
    and "(\<forall>v\<in>set xs. v = real_of_int k) \<and> (\<forall>v\<in>set ys. \<bar>v\<bar> \<le> 2 ^ 480)
       \<or> (\<forall>v\<in>set ys. v = real_of_int k) \<and> (\<forall>v\<in>set xs. \<bar>v\<bar> \<le> 2 ^ 480)"
  shows "calculateCorrelation (map Fin xs) (map Fin ys) = Fin 0"
  using assms(4)
proof
  assume "(\<forall>v\<in>set xs. v = real_of_int k) \<and> (\<forall>v\<in>set ys. \<bar>v\<bar> \<le> 2 ^ 480)"
  then show ?thesis
    using assms(1-3) correlation_constant_first [of xs ys k] by blast
next
  assume "(\<forall>v\<in>set ys. v = real_of_int k) \<and> (\<forall>v\<in>set xs. \<bar>v\<bar> \<le> 2 ^ 480)"
  then have "calculateCorrelation (map Fin ys) (map Fin xs) = Fin 0"
    using assms(1-3) correlation_constant_first [of ys xs k] by metis
  then show ?thesis
    using calculateCorrelation_commute [of "map Fin xs" "map Fin ys"] assms(1) by simp
qed

text \<open>
  Claim C8, as amended. \<open>calculateGini\<close> is 0 for no labels and for labels that are all
  the same. \<open>calculateROCAUC\<close> is 0.5 when every actual value is the positive class or none
  is. \<open>calculateCorrelation\<close> of two arrays of the same length is 0 when the entries of one
  of them are all the same whole number, of a magnitude of at most \<open>2 ^ 20\<close>, and the entries
  of the other are finite numbers of a magnitude of at most \<open>2 ^ 480\<close>: the sum of the whole
  numbers is exact, so the mean that is computed is the number itself and every deviation
  from it is 0, and the sum of the squares of the other array does not overflow.
\<close>

theorem C8_degenerate_input_sentinels:
  "calculateGini [] = Fin 0
   \<and> (labels \<noteq> [] \<and> (\<forall>l\<in>set labels. l = c) \<longrightarrow> calculateGini labels = Fin 0)
   \<and> ((\<forall>a\<in>set actuals. jseq a (Fin 1)) \<or> (\<forall>a\<in>set actuals. \<not> jseq a (Fin 1)) \<longrightarrow>
        calculateROCAUC actuals probabilities = Fin 0.5)
   \<and> (length xs = length ys \<and> length xs < 2 ^ 32 \<and> \<bar>k\<bar> \<le> 2 ^ 20
        \<and> ((\<forall>v\<in>set xs. v = real_of_int k) \<and> (\<forall>v\<in>set ys. \<bar>v\<bar> \<le> 2 ^ 480)
           \<or> (\<forall>v\<in>set ys. v = real_of_int k) \<and> (\<forall>v\<in>set xs. \<bar>v\<bar> \<le> 2 ^ 480)) \<longrightarrow>
        calculateCorrelation (map Fin xs) (map Fin ys) = Fin 0)"
proof -
  have "calculateGini [] = Fin 0"
    by (simp add: calculateGini_def)
  moreover have "labels \<noteq> [] \<and> (\<forall>l\<in>set labels. l = c) \<longrightarrow> calculateGini labels = Fin 0"
    using gini_single_class [of labels c] by blast
  moreover have "(\<forall>a\<in>set actuals. jseq a (Fin 1)) \<or> (\<forall>a\<in>set actuals. \<not> jseq a (Fin 1)) \<longrightarrow>
      calculateROCAUC actuals probabilities = Fin 0.5"
    using roc_single_class [of actuals probabilities] by blast
  moreover have "length xs = length ys \<and> length xs < 2 ^ 32 \<and> \<bar>k\<bar> \<le> 2 ^ 20
        \<and> ((\<forall>v\<in>set xs. v = real_of_int k) \<and> (\<forall>v\<in>set ys. \<bar>v\<bar> \<le> 2 ^ 480)
           \<or> (\<forall>v\<in>set ys. v = real_of_int k) \<and> (\<forall>v\<in>set xs. \<bar>v\<bar> \<le> 2 ^ 480)) \<longrightarrow>
        calculateCorrelation (map Fin xs) (map Fin ys) = Fin 0"
    using correlation_constant_side [of xs ys k] by blast
  ultimately show ?thesis by blast
qed

text \<open>
  Labels that are all 1, actual values that are all 0, a column that is 1 throughout against
  the labels 0, 1, 1, and a column against labels that are 1 throughout.
\<close>

theorem C8_degenerate_input_sentinels_witness:
  "[Fin 1, Fin 1, Fin 1] \<noteq> [] \<and> set [Fin 1, Fin 1, Fin 1] \<subseteq> {Fin 1}
   \<and> calculateGini [Fin 1, Fin 1, Fin 1] = Fin 0
   \<and> filter (\<lambda>a. jseq a (Fin 1)) [Fin 0, Fin 0] = []
   \<and> calculateROCAUC [Fin 0, Fin 0] [Fin 0.3, Fin 0.7] = Fin 0.5
   \<and> length [1, 1, 1 :: real] = length [0, 1, 1 :: real]
   \<and> set [1, 1, 1 :: real] \<subseteq> {1}
   \<and> calculateCorrelation (map Fin [1, 1, 1]) (map Fin [0, 1, 1]) = Fin 0
   \<and> calculateCorrelation (map Fin [0.7, 0.3, 0.5]) (map Fin [1, 1, 1]) = Fin 0"
  using C8_degenerate_input_sentinels
    [of "[Fin 1, Fin 1, Fin 1]" "Fin 1" "[Fin 0, Fin 0]" "[Fin 0.3, Fin 0.7]"
        "[1, 1, 1]" "[0, 1, 1]" 1]
    C8_degenerate_input_sentinels
    [of "[Fin 1, Fin 1, Fin 1]" "Fin 1" "[Fin 0, Fin 0]" "[Fin 0.3, Fin 0.7]"
        "[0.7, 0.3, 0.5]" "[1, 1, 1]" 1]
  by (simp add: jseq_def)

text \<open>
  The claim as it was stated fails for a constant column whose sum is rounded. A column
  holds 0.7 three times (seven hours of sleep, divided by 10) and the labels are 0, 0, 1.
  The sum of the column is 2.0999999999999996 and its mean 0.6999999999999998, every
  deviation from the mean is \<open>2 ^ -53\<close> and not 0, the denominator is about 1.57e-16, and
  the result is \<open>1592262918131443 / 2 ^ 104\<close>, about 7.85e-17. The claim also fails when an
  entry is not finite: with constant labels and a column that holds \<open>-Infinity\<close> the result
  is NaN. The encoder produces such a column: the days-since-created feature (index 17) of
  a log dated on the day the habit was created, before the time of creation, is
  \<open>log1p(-1)\<close> divided by a positive number.
\<close>

theorem C8_correlation_constant_column_counterexample:
  "calculateCorrelation [fl 0.7, fl 0.7, fl 0.7] [Fin 0, Fin 0, Fin 1]
     = Fin (1592262918131443 / 20282409603651670423947251286016)
   \<and> calculateCorrelation [NInf, Fin 0.5] [Fin 1, Fin 1] = NaN"
proof -
  have lit: "fl 0.7 = Fin (3152519739159347 / 4503599627370496)"
    using fl_eval [of "- 53" "7 / 10" 6305039478318694] by (simp add: roundEven_def)
  have s1: "dadd (Fin 0) (Fin (3152519739159347 / 4503599627370496)) = Fin (3152519739159347 / 4503599627370496)"
    using fl_eval [of "- 53" "3152519739159347 / 4503599627370496" "6305039478318694"] by (simp add: dop_Fin roundEven_def)
  have s2: "dadd (Fin (3152519739159347 / 4503599627370496)) (Fin (3152519739159347 / 4503599627370496)) = Fin (3152519739159347 / 2251799813685248)"
    using fl_eval [of "- 52" "3152519739159347 / 2251799813685248" "6305039478318694"] by (simp add: dop_Fin roundEven_def)
  have s3: "dadd (Fin (3152519739159347 / 2251799813685248)) (Fin (3152519739159347 / 4503599627370496)) = Fin (1182194902184755 / 562949953421312)"
    using fl_eval [of "- 51" "9457559217478041 / 4503599627370496" "4728779608739020"] by (simp add: dop_Fin roundEven_def)
  have s4: "ddiv (Fin (1182194902184755 / 562949953421312)) (Fin 3) = Fin (6305039478318693 / 9007199254740992)"
    using fl_eval [of "- 53" "1182194902184755 / 1688849860263936" "6305039478318693"] by (simp add: dop_Fin roundEven_def)
  have s5: "dadd (Fin 0) (Fin 0) = Fin 0"
    by (simp add: dop_Fin)
  have s6: "dadd (Fin 0) (Fin 1) = Fin 1"
    using fl_eval [of "- 52" "1" "4503599627370496"] by (simp add: dop_Fin roundEven_def)
  have s7: "ddiv (Fin 1) (Fin 3) = Fin (6004799503160661 / 18014398509481984)"
    using fl_eval [of "- 54" "1 / 3" "6004799503160661"] by (simp add: dop_Fin roundEven_def)
  have s8: "dsub (Fin (3152519739159347 / 4503599627370496)) (Fin (6305039478318693 / 9007199254740992)) = Fin (1 / 9007199254740992)"
    using fl_eval [of "- 105" "1 / 9007199254740992" "4503599627370496"] by (simp add: dop_Fin roundEven_def)
  have s9: "dsub (Fin 0) (Fin (6004799503160661 / 18014398509481984)) = Fin (- (6004799503160661 / 18014398509481984))"
    using fl_eval [of "- 54" "- (6004799503160661 / 18014398509481984)" "- 6004799503160661"] by (simp add: dop_Fin roundEven_def)
  have s10: "dmul (Fin (1 / 9007199254740992)) (Fin (- (6004799503160661 / 18014398509481984))) = Fin (- (6004799503160661 / 162259276829213363391578010288128))"
    using fl_eval [of "- 107" "- (6004799503160661 / 162259276829213363391578010288128)" "- 6004799503160661"] by (simp add: dop_Fin roundEven_def)
  have s11: "dadd (Fin 0) (Fin (- (6004799503160661 / 162259276829213363391578010288128))) = Fin (- (6004799503160661 / 162259276829213363391578010288128))"
    using fl_eval [of "- 107" "- (6004799503160661 / 162259276829213363391578010288128)" "- 6004799503160661"] by (simp add: dop_Fin roundEven_def)
  have s12: "dmul (Fin (1 / 9007199254740992)) (Fin (1 / 9007199254740992)) = Fin (1 / 81129638414606681695789005144064)"
    using fl_eval [of "- 158" "1 / 81129638414606681695789005144064" "4503599627370496"] by (simp add: dop_Fin roundEven_def)
  have s13: "dadd (Fin 0) (Fin (1 / 81129638414606681695789005144064)) = Fin (1 / 81129638414606681695789005144064)"
    using fl_eval [of "- 158" "1 / 81129638414606681695789005144064" "4503599627370496"] by (simp add: dop_Fin roundEven_def)
  have s14: "dmul (Fin (- (6004799503160661 / 18014398509481984))) (Fin (- (6004799503160661 / 18014398509481984))) = Fin (2001599834386887 / 18014398509481984)"
    using fl_eval [of "- 56" "36057617073158521194928777956921 / 324518553658426726783156020576256" "8006399337547548"] by (simp add: dop_Fin roundEven_def)
  have s15: "dadd (Fin 0) (Fin (2001599834386887 / 18014398509481984)) = Fin (2001599834386887 / 18014398509481984)"
    using fl_eval [of "- 56" "2001599834386887 / 18014398509481984" "8006399337547548"] by (simp add: dop_Fin roundEven_def)
  have s16: "dadd (Fin (- (6004799503160661 / 162259276829213363391578010288128))) (Fin (- (6004799503160661 / 162259276829213363391578010288128))) = Fin (- (6004799503160661 / 81129638414606681695789005144064))"
    using fl_eval [of "- 106" "- (6004799503160661 / 81129638414606681695789005144064)" "- 6004799503160661"] by (simp add: dop_Fin roundEven_def)
  have s17: "dadd (Fin (1 / 81129638414606681695789005144064)) (Fin (1 / 81129638414606681695789005144064)) = Fin (1 / 40564819207303340847894502572032)"
    using fl_eval [of "- 157" "1 / 40564819207303340847894502572032" "4503599627370496"] by (simp add: dop_Fin roundEven_def)
  have s18: "dadd (Fin (2001599834386887 / 18014398509481984)) (Fin (2001599834386887 / 18014398509481984)) = Fin (2001599834386887 / 9007199254740992)"
    using fl_eval [of "- 55" "2001599834386887 / 9007199254740992" "8006399337547548"] by (simp add: dop_Fin roundEven_def)
  have s19: "dsub (Fin 1) (Fin (6004799503160661 / 18014398509481984)) = Fin (3002399751580331 / 4503599627370496)"
    using fl_eval [of "- 53" "12009599006321323 / 18014398509481984" "6004799503160662"] by (simp add: dop_Fin roundEven_def)
  have s20: "dmul (Fin (1 / 9007199254740992)) (Fin (3002399751580331 / 4503599627370496)) = Fin (3002399751580331 / 40564819207303340847894502572032)"
    using fl_eval [of "- 106" "3002399751580331 / 40564819207303340847894502572032" "6004799503160662"] by (simp add: dop_Fin roundEven_def)
  have s21: "dadd (Fin (- (6004799503160661 / 81129638414606681695789005144064))) (Fin (3002399751580331 / 40564819207303340847894502572032)) = Fin (1 / 81129638414606681695789005144064)"
    using fl_eval [of "- 158" "1 / 81129638414606681695789005144064" "4503599627370496"] by (simp add: dop_Fin roundEven_def)
  have s22: "dadd (Fin (1 / 40564819207303340847894502572032)) (Fin (1 / 81129638414606681695789005144064)) = Fin (3 / 81129638414606681695789005144064)"
    using fl_eval [of "- 157" "3 / 81129638414606681695789005144064" "6755399441055744"] by (simp add: dop_Fin roundEven_def)
  have s23: "dmul (Fin (3002399751580331 / 4503599627370496)) (Fin (3002399751580331 / 4503599627370496)) = Fin (4003199668773775 / 9007199254740992)"
    using fl_eval [of "- 54" "9014404268289633301131946069561 / 20282409603651670423947251286016" "8006399337547550"] by (simp add: dop_Fin roundEven_def)
  have s24: "dadd (Fin (2001599834386887 / 9007199254740992)) (Fin (4003199668773775 / 9007199254740992)) = Fin (3002399751580331 / 4503599627370496)"
    using fl_eval [of "- 53" "3002399751580331 / 4503599627370496" "6004799503160662"] by (simp add: dop_Fin roundEven_def)
  have s25: "dmul (Fin (3 / 81129638414606681695789005144064)) (Fin (3002399751580331 / 4503599627370496)) = Fin (1 / 40564819207303340847894502572032)"
    using fl_eval [of "- 157" "9007199254740993 / 365375409332725729550921208179070754913983135744" "4503599627370496"] by (simp add: dop_Fin roundEven_def)
  have s26: "dsqrt (Fin (1 / 40564819207303340847894502572032)) = Fin (6369051672525773 / 40564819207303340847894502572032)"
    using fl_sqrt_eval [of "- 105" "1 / 40564819207303340847894502572032" 6369051672525773] by (simp add: dop_Fin power2_eq_square)
  have s27: "ddiv (Fin (1 / 81129638414606681695789005144064)) (Fin (6369051672525773 / 40564819207303340847894502572032)) = Fin (1592262918131443 / 20282409603651670423947251286016)"
    using fl_eval [of "- 106" "1 / 12738103345051546" "6369051672525772"] by (simp add: dop_Fin roundEven_def)
  have rounded: "calculateCorrelation [fl 0.7, fl 0.7, fl 0.7] [Fin 0, Fin 0, Fin 1]
      = Fin (1592262918131443 / 20282409603651670423947251286016)"
    unfolding lit
    by (simp add: calculateCorrelation_def correlationStep_def Let_def nth_js_def upt_rec jseq_def
        s1 s2 s3 s4 s5 s6 s7 s8 s9 s10 s11 s12 s13 s14 s15 s16 s17 s18 s19 s20 s21 s22 s23 s24 s25 s26 s27)
  have one: "fl 1 = Fin 1" and two: "fl 2 = Fin 2"
    using fl_of_int [of 1] fl_of_int [of 2] by simp_all
  have infinite: "calculateCorrelation [NInf, Fin 0.5] [Fin 1, Fin 1] = NaN"
    by (simp add: calculateCorrelation_def correlationStep_def Let_def nth_js_def upt_rec jseq_def
        dadd_def dsub_def dmul_def ddiv_def dsqrt_def jsub_def one two)
  show ?thesis
    using rounded infinite by (rule conjI)
qed

lemma daysSinceCreated_feature_infinite:
  "td_features (createTrainingData rt
      [\<lparr> h_id = ''h1'', h_name = ''Exercise'', h_category = ''Health'',
         h_preferredTime = morning, h_createdAt = dateTime 1 + 15 * 60 * 60 * 1000,
         h_isActive = True \<rparr>]
      [exampleLog ''h1'' 1 True]) ! 0 ! 17 = NInf"
  by (simp add: example_defs feature_defs jmin_def)

section \<open>The encoded vector, the clock and the defaults\<close>

text \<open>
  The recent log of \<open>extractFeatures\<close> is a log dated on or before the target date, and no
  such log has a later date; there is none exactly when no log is dated on or before the
  target date.
\<close>

lemma recentLogOf_most_recent:
  assumes "recentLogOf habitLogs t = Some lg"
  shows "lg \<in> set habitLogs \<and> dateTime (l_date lg) \<le> t
       \<and> (\<forall>lg'\<in>set habitLogs. dateTime (l_date lg') \<le> t \<longrightarrow> l_date lg' \<le> l_date lg)"
proof -
  let ?k = "\<lambda>lg. real_of_int (dateTime (l_date lg))"
  let ?xs = "filter (\<lambda>lg. dateTime (l_date lg) \<le> t) habitLogs"
  have eq: "js_sort (\<lambda>a b. Fin (real_of_int (dateTime (l_date b) - dateTime (l_date a)))) ?xs
       = sort_key (\<lambda>x. - ?k x) ?xs"
    by (rule js_sort_sort_key) (simp add: jgt_def)
  obtain rest where srt: "sort_key (\<lambda>x. - ?k x) ?xs = lg # rest"
    using assms unfolding recentLogOf_def eq by (auto split: list.splits)
  have "lg \<in> set (sort_key (\<lambda>x. - ?k x) ?xs)" unfolding srt by simp
  then have mem: "lg \<in> set ?xs" by simp
  have "sorted (map (\<lambda>x. - ?k x) (sort_key (\<lambda>x. - ?k x) ?xs))" by simp
  then have "\<forall>y\<in>set rest. - ?k lg \<le> - ?k y" unfolding srt by simp
  moreover have "set ?xs = insert lg (set rest)"
    using srt by (metis list.simps(15) set_sort)
  ultimately have "\<forall>y\<in>set ?xs. ?k y \<le> ?k lg" by auto
  then have "\<forall>lg'\<in>set habitLogs. dateTime (l_date lg') \<le> t \<longrightarrow> l_date lg' \<le> l_date lg"
    by (auto simp: dateTime_def msPerDay_def)
  then show ?thesis using mem by simp
qed

lemma recentLogOf_none:
  "recentLogOf habitLogs t = None \<longleftrightarrow> (\<forall>lg\<in>set habitLogs. \<not> dateTime (l_date lg) \<le> t)"
proof -
  let ?cmp = "\<lambda>a b. Fin (real_of_int (dateTime (l_date b) - dateTime (l_date a)))"
  let ?xs = "filter (\<lambda>lg. dateTime (l_date lg) \<le> t) habitLogs"
  have "recentLogOf habitLogs t = None \<longleftrightarrow> js_sort ?cmp ?xs = []"
    by (simp add: recentLogOf_def split: list.splits)
  also have "\<dots> \<longleftrightarrow> ?xs = []"
    using set_js_sort [of ?cmp ?xs] by (metis set_empty)
  also have "\<dots> \<longleftrightarrow> (\<forall>lg\<in>set habitLogs. \<not> dateTime (l_date lg) \<le> t)"
    by (simp add: filter_empty_conv)
  finally show ?thesis .
qed

lemma stats_clock_independent:
  "s_currentStreak (calculateHabitStats now1 habit logs) = s_currentStreak (calculateHabitStats now2 habit logs)"
  "s_successRate (calculateHabitStats now1 habit logs) = s_successRate (calculateHabitStats now2 habit logs)"
  by (simp_all add: calculateHabitStats_def Let_def)

text \<open>
  Claim C9, as amended. The encoded vector of a habit, its logs and a target date has 19
  slots. It depends on the reading of the clock in slot 14 only (days since the last log,
  which \<open>calculateHabitStats\<close> counts from \<open>Date.now()\<close>): with the same time zone, two
  evaluations agree on the slots 0 to 13 and 15 to 18 whatever the clock reads. When the
  recent log has no mood (or there is no recent log), slot 5 is 0.5; without sleep hours
  slot 6 is 0.75; without energy level slot 7 is 0.5; without stress level slot 8 is 0.5;
  without weather the slots 9 to 12 are 0.
\<close>

theorem C9_encoding_clock_and_defaults:
  "(r_tzOffset rt1 = r_tzOffset rt2 \<longrightarrow>
      take 14 (encodeFeatures (extractFeatures rt1 habit logs (Some d)))
        = take 14 (encodeFeatures (extractFeatures rt2 habit logs (Some d)))
      \<and> drop 15 (encodeFeatures (extractFeatures rt1 habit logs (Some d)))
        = drop 15 (encodeFeatures (extractFeatures rt2 habit logs (Some d))))
   \<and> length (encodeFeatures (extractFeatures rt habit logs (Some d))) = 19
   \<and> (Option.bind (recentLogOf (filter (\<lambda>lg. l_habitId lg = h_id habit) logs) d) l_mood = None \<longrightarrow>
        encodeFeatures (extractFeatures rt habit logs (Some d)) ! 5 = Fin 0.5)
   \<and> (Option.bind (recentLogOf (filter (\<lambda>lg. l_habitId lg = h_id habit) logs) d) l_sleepHours = None \<longrightarrow>
        encodeFeatures (extractFeatures rt habit logs (Some d)) ! 6 = Fin 0.75)
   \<and> (Option.bind (recentLogOf (filter (\<lambda>lg. l_habitId lg = h_id habit) logs) d) l_energyLevel = None \<longrightarrow>
        encodeFeatures (extractFeatures rt habit logs (Some d)) ! 7 = Fin 0.5)
   \<and> (Option.bind (recentLogOf (filter (\<lambda>lg. l_habitId lg = h_id habit) logs) d) l_stressLevel = None \<longrightarrow>
        encodeFeatures (extractFeatures rt habit logs (Some d)) ! 8 = Fin 0.5)
   \<and> (Option.bind (recentLogOf (filter (\<lambda>lg. l_habitId lg = h_id habit) logs) d) l_weather = None \<longrightarrow>
        take 4 (drop 9 (encodeFeatures (extractFeatures rt habit logs (Some d))))
          = [Fin 0, Fin 0, Fin 0, Fin 0])"
proof -
  have clock: "take 14 (encodeFeatures (extractFeatures rt1 habit logs (Some d)))
        = take 14 (encodeFeatures (extractFeatures rt2 habit logs (Some d)))
      \<and> drop 15 (encodeFeatures (extractFeatures rt1 habit logs (Some d)))
        = drop 15 (encodeFeatures (extractFeatures rt2 habit logs (Some d)))"
    if "r_tzOffset rt1 = r_tzOffset rt2"
    using that stats_clock_independent [of "r_now rt1" habit logs "r_now rt2"]
    by (simp add: encode_prefix encode_suffix extractFeatures_def Let_def getDay_def)
  have defaults:
    "f_mood (extractFeatures rt habit logs (Some d)) = None \<Longrightarrow>
       encodeFeatures (extractFeatures rt habit logs (Some d)) ! 5 = Fin 0.5"
    "f_sleepHours (extractFeatures rt habit logs (Some d)) = None \<Longrightarrow>
       encodeFeatures (extractFeatures rt habit logs (Some d)) ! 6 = Fin 0.75"
    "f_energyLevel (extractFeatures rt habit logs (Some d)) = None \<Longrightarrow>
       encodeFeatures (extractFeatures rt habit logs (Some d)) ! 7 = Fin 0.5"
    "f_stressLevel (extractFeatures rt habit logs (Some d)) = None \<Longrightarrow>
       encodeFeatures (extractFeatures rt habit logs (Some d)) ! 8 = Fin 0.5"
    "f_weather (extractFeatures rt habit logs (Some d)) = None \<Longrightarrow>
       take 4 (drop 9 (encodeFeatures (extractFeatures rt habit logs (Some d))))
         = [Fin 0, Fin 0, Fin 0, Fin 0]"
    by (simp_all add: encode_slots moodValue_def sleepValue_def energyValue_def stressValue_def
        weatherEncoding_def)
  have fields:
    "f_mood (extractFeatures rt habit logs (Some d))
       = Option.bind (recentLogOf (filter (\<lambda>lg. l_habitId lg = h_id habit) logs) d) l_mood"
    "f_sleepHours (extractFeatures rt habit logs (Some d))
       = Option.bind (recentLogOf (filter (\<lambda>lg. l_habitId lg = h_id habit) logs) d) l_sleepHours"
    "f_energyLevel (extractFeatures rt habit logs (Some d))
       = Option.bind (recentLogOf (filter (\<lambda>lg. l_habitId lg = h_id habit) logs) d) l_energyLevel"
    "f_stressLevel (extractFeatures rt habit logs (Some d))
       = Option.bind (recentLogOf (filter (\<lambda>lg. l_habitId lg = h_id habit) logs) d) l_stressLevel"
    "f_weather (extractFeatures rt habit logs (Some d))
       = Option.bind (recentLogOf (filter (\<lambda>lg. l_habitId lg = h_id habit) logs) d) l_weather"
    by (simp_all add: extractFeatures_def Let_def)
  show ?thesis
    using clock defaults encode_length [of "extractFeatures rt habit logs (Some d)"]
    unfolding fields by blast
qed

text \<open>A habit with one log on day 0 without contextual fields, encoded for day 1.\<close>

theorem C9_encoding_clock_and_defaults_witness:
  "r_tzOffset (utc (dateTime 1)) = r_tzOffset (utc (dateTime 2))
   \<and> Option.bind (recentLogOf (filter (\<lambda>lg. l_habitId lg = h_id (exampleHabit ''h1''))
          [exampleLog ''h1'' 0 True]) (dateTime 1)) l_mood = None
   \<and> Option.bind (recentLogOf (filter (\<lambda>lg. l_habitId lg = h_id (exampleHabit ''h1''))
          [exampleLog ''h1'' 0 True]) (dateTime 1)) l_sleepHours = None
   \<and> take 14 (encodeFeatures (extractFeatures (utc (dateTime 1)) (exampleHabit ''h1'')
          [exampleLog ''h1'' 0 True] (Some (dateTime 1))))
       = take 14 (encodeFeatures (extractFeatures (utc (dateTime 2)) (exampleHabit ''h1'')
          [exampleLog ''h1'' 0 True] (Some (dateTime 1))))
   \<and> encodeFeatures (extractFeatures (utc (dateTime 1)) (exampleHabit ''h1'')
        [exampleLog ''h1'' 0 True] (Some (dateTime 1))) ! 5 = Fin 0.5
   \<and> encodeFeatures (extractFeatures (utc (dateTime 1)) (exampleHabit ''h1'')
        [exampleLog ''h1'' 0 True] (Some (dateTime 1))) ! 6 = Fin 0.75"
  using C9_encoding_clock_and_defaults
    [of "utc (dateTime 1)" "utc (dateTime 2)" "exampleHabit ''h1''"
        "[exampleLog ''h1'' 0 True]" "dateTime 1" "utc (dateTime 1)"]
  by (simp add: utc_def recentLogOf_def js_sort_def exampleLog_def exampleHabit_def)

text \<open>
  The claim as it was stated fails: the same habit, logs and target date are encoded to
  different vectors when the clock reads day 1 and when it reads day 2 (slot 14 is 1/30 and
  then 2/30).
\<close>

theorem C9_same_triple_different_vectors_counterexample:
  "encodeFeatures (extractFeatures (utc (dateTime 1)) (exampleHabit ''h1'')
     [exampleLog ''h1'' 0 True] (Some (dateTime 1)))
   \<noteq> encodeFeatures (extractFeatures (utc (dateTime 2)) (exampleHabit ''h1'')
     [exampleLog ''h1'' 0 True] (Some (dateTime 1)))"
  by (simp add: example_defs feature_defs jmin_def)

end
